theory Spec2Isabelle
  imports Complex_Main
begin

section \<open>Exceptions and outcomes\<close>

text \<open>
  The Python exceptions the modelled code raises or catches. Each carries the text that
  \<^verbatim>\<open>str(e)\<close> (and so an f-string) renders. \<open>OtherError\<close> stands for any other
  \<^verbatim>\<open>Exception\<close> raised inside the external llama-cpp library.
\<close>

datatype exn =
    RuntimeError string
  | ValueError string
  | IndexError string
  | ValidationError string
  | OtherError string

fun str_exn :: "exn \<Rightarrow> string" where
  "str_exn (RuntimeError m) = m"
| "str_exn (ValueError m) = m"
| "str_exn (IndexError m) = m"
| "str_exn (ValidationError m) = m"
| "str_exn (OtherError m) = m"

fun is_RuntimeError :: "exn \<Rightarrow> bool" where
  "is_RuntimeError (RuntimeError m) = True"
| "is_RuntimeError e = False"

text \<open>
  \<^verbatim>\<open>fastapi.HTTPException(status_code, detail, headers)\<close>: the value a route or a
  dependency raises to answer with an error status.
\<close>

datatype http_exception = HTTPException nat string "(string \<times> string) list"

fun status_code :: "http_exception \<Rightarrow> nat" where
  "status_code (HTTPException c d h) = c"

definition HTTP_401_UNAUTHORIZED :: nat where "HTTP_401_UNAUTHORIZED = 401"
definition HTTP_403_FORBIDDEN :: nat where "HTTP_403_FORBIDDEN = 403"
definition HTTP_422_UNPROCESSABLE :: nat where "HTTP_422_UNPROCESSABLE = 422"
definition HTTP_500_INTERNAL_SERVER_ERROR :: nat where "HTTP_500_INTERNAL_SERVER_ERROR = 500"

text \<open>
  What a call of an \<^verbatim>\<open>async\<close> method of the manager does when it runs without
  another task interleaved: it returns a value, raises, or waits for ever on a lock that
  nobody releases.
\<close>

datatype 'a outcome = Returns 'a | Raises exn | Blocks

section \<open>Configuration (app/config.py)\<close>

record Settings =
  port :: int
  host :: string
  log_level :: string
  api_keys :: "string list"
  admin_api_key :: string
  model_path :: string
  model_name :: string
  n_gpu_layers :: int
  n_ctx :: int
  n_batch :: int
  n_threads :: int
  use_mlock :: bool
  use_mmap :: bool
  rope_freq_base :: real
  rope_freq_scale :: real

text \<open>The \<^verbatim>\<open>Field(default=...)\<close> values of the class.\<close>

definition default_settings :: Settings where
  "default_settings =
     \<lparr> port = 1133, host = ''0.0.0.0'', log_level = ''info'',
       api_keys = [], admin_api_key = '''',
       model_path = ''/app/models/model.gguf'', model_name = ''llama-3-8b'',
       n_gpu_layers = - 1, n_ctx = 4096, n_batch = 512, n_threads = 8,
       use_mlock = True, use_mmap = True,
       rope_freq_base = 10000, rope_freq_scale = 1 \<rparr>"

text \<open>
  \<^verbatim>\<open>Settings.validate_required_fields\<close>: \<^verbatim>\<open>not self.api_keys\<close> is true of the empty
  list, \<^verbatim>\<open>not self.admin_api_key\<close> of the empty string. \<open>Inr ()\<close> is the normal return.
\<close>

definition validate_required_fields :: "Settings \<Rightarrow> exn + unit" where
  "validate_required_fields s =
     (if api_keys s = [] then
        Inl (ValueError (''At least one API key must be configured. '' @
                         ''Set API_KEYS environment variable.''))
      else if admin_api_key s = [] then
        Inl (ValueError (''Admin API key must be configured. '' @
                         ''Set ADMIN_API_KEY environment variable.''))
      else Inr ())"

text \<open>
  The module body of app/config.py after \<^verbatim>\<open>settings = Settings()\<close>: the validation runs
  inside \<^verbatim>\<open>try\<close>, and \<^verbatim>\<open>except ValueError as e\<close> turns the error into
  \<^verbatim>\<open>warnings.warn(...)\<close>. The result is either an exception that escapes the import
  (\<open>Inl\<close>) or the settings object together with the warnings issued.
\<close>

definition import_config :: "Settings \<Rightarrow> exn + (Settings \<times> string list)" where
  "import_config s =
     (case validate_required_fields s of
        Inr u \<Rightarrow> Inr (s, [])
      | Inl (ValueError m) \<Rightarrow> Inr (s, [''Configuration validation failed: '' @ m])
      | Inl e \<Rightarrow> Inl e)"

section \<open>Authentication (app/auth.py)\<close>

text \<open>
  Both dependencies receive \<^verbatim>\<open>credentials.credentials\<close>, the token that
  \<^verbatim>\<open>HTTPBearer\<close> took from the header, and either return it or raise an
  \<^verbatim>\<open>HTTPException\<close>. \<^verbatim>\<open>not token\<close> is true of the empty string;
  \<^verbatim>\<open>token not in settings.api_keys\<close> is list membership.
\<close>

definition verify_api_key :: "Settings \<Rightarrow> string \<Rightarrow> http_exception + string" where
  "verify_api_key settings token =
     (if token = [] then
        Inl (HTTPException HTTP_401_UNAUTHORIZED ''Missing API key''
               [(''WWW-Authenticate'', ''Bearer'')])
      else if token \<notin> set (api_keys settings) then
        Inl (HTTPException HTTP_401_UNAUTHORIZED ''Invalid API key''
               [(''WWW-Authenticate'', ''Bearer'')])
      else Inr token)"

definition verify_admin_key :: "Settings \<Rightarrow> string \<Rightarrow> http_exception + string" where
  "verify_admin_key settings token =
     (if token = [] then
        Inl (HTTPException HTTP_401_UNAUTHORIZED ''Missing API key''
               [(''WWW-Authenticate'', ''Bearer'')])
      else if token \<noteq> admin_api_key settings then
        Inl (HTTPException HTTP_403_FORBIDDEN ''Admin access required'' [])
      else Inr token)"

text \<open>The settings the repository's tests patch in (tests/test_auth.py).\<close>

definition test_settings :: Settings where
  "test_settings = default_settings
     \<lparr> api_keys := [''sk-test-key-123'', ''sk-test-key-456''],
       admin_api_key := ''sk-admin-test-key'',
       model_name := ''test-model'' \<rparr>"

section \<open>Request and response models (app/models.py)\<close>

text \<open>
  A request body as it reaches the model class: every field is either absent or holds a
  value of the field's declared type. A \<^verbatim>\<open>float\<close> field is a \<open>real\<close>: the bounds
  0, 1 and 2 are floats exactly, and comparing finite floats is comparing the numbers
  they denote.
\<close>

record raw_message =
  raw_role :: "string option"
  raw_content :: "string option"

record raw_request =
  raw_model :: "string option"
  raw_messages :: "raw_message list option"
  raw_temperature :: "real option"
  raw_max_tokens :: "int option"
  raw_top_p :: "real option"
  raw_stream :: "bool option"
  raw_stop :: "string list option"

record Message =
  role :: string
  content :: string

record ChatCompletionRequest =
  model :: string
  messages :: "Message list"
  temperature :: real
  max_tokens :: int
  top_p :: real
  stream :: bool
  stop :: "string list option"

text \<open>One entry of a validation error: where it is (\<^verbatim>\<open>loc\<close>) and its kind.\<close>

datatype loc_part = Key string | Index nat

type_synonym validation_error = "loc_part list \<times> string"

definition role_literal :: "string list" where
  "role_literal = [''system'', ''user'', ''assistant'']"

definition finish_reason_literal :: "string list" where
  "finish_reason_literal = [''stop'', ''length'', ''error'']"

text \<open>\<^verbatim>\<open>Message\<close>: both fields are required, \<^verbatim>\<open>role\<close> is a \<^verbatim>\<open>Literal\<close>.\<close>

definition check_message :: "loc_part list \<Rightarrow> raw_message \<Rightarrow> validation_error list" where
  "check_message loc m =
     (case raw_role m of
        None \<Rightarrow> [(loc @ [Key ''role''], ''missing'')]
      | Some r \<Rightarrow> if r \<in> set role_literal then []
                  else [(loc @ [Key ''role''], ''literal_error'')]) @
     (case raw_content m of
        None \<Rightarrow> [(loc @ [Key ''content''], ''missing'')]
      | Some c \<Rightarrow> [])"

fun check_messages :: "nat \<Rightarrow> raw_message list \<Rightarrow> validation_error list" where
  "check_messages i [] = []"
| "check_messages i (m # ms) =
     check_message [Key ''body'', Key ''messages'', Index i] m @ check_messages (Suc i) ms"

text \<open>\<^verbatim>\<open>Field(ge=lo, le=hi)\<close> on a value that was given.\<close>

definition check_range ::
  "string \<Rightarrow> 'a::linorder \<Rightarrow> 'a \<Rightarrow> 'a \<Rightarrow> validation_error list" where
  "check_range name lo hi v =
     (if \<not> lo \<le> v then [([Key ''body'', Key name], ''greater_than_equal'')]
      else if \<not> v \<le> hi then [([Key ''body'', Key name], ''less_than_equal'')]
      else [])"

definition request_errors :: "raw_request \<Rightarrow> validation_error list" where
  "request_errors r =
     (case raw_messages r of
        None \<Rightarrow> [([Key ''body'', Key ''messages''], ''missing'')]
      | Some ms \<Rightarrow> check_messages 0 ms) @
     (case raw_temperature r of None \<Rightarrow> [] | Some t \<Rightarrow> check_range ''temperature'' 0 2 t) @
     (case raw_max_tokens r of None \<Rightarrow> [] | Some n \<Rightarrow> check_range ''max_tokens'' 1 32000 n) @
     (case raw_top_p r of None \<Rightarrow> [] | Some p \<Rightarrow> check_range ''top_p'' 0 1 p)"

fun or_default :: "'a option \<Rightarrow> 'a \<Rightarrow> 'a" where
  "or_default None d = d"
| "or_default (Some v) d = v"

definition to_message :: "raw_message \<Rightarrow> Message" where
  "to_message m = \<lparr> role = or_default (raw_role m) [], content = or_default (raw_content m) [] \<rparr>"

text \<open>
  \<^verbatim>\<open>ChatCompletionRequest\<close> built from a body: a field that is absent takes its
  \<^verbatim>\<open>Field(default=...)\<close>; a body with errors is answered 422 with the list of them
  (FastAPI's \<^verbatim>\<open>RequestValidationError\<close> handler).
\<close>

definition parse_request ::
  "raw_request \<Rightarrow> (nat \<times> validation_error list) + ChatCompletionRequest" where
  "parse_request r =
     (if request_errors r \<noteq> [] then Inl (HTTP_422_UNPROCESSABLE, request_errors r)
      else Inr \<lparr> model = or_default (raw_model r) ''llama-3-8b'',
                 messages = map to_message (or_default (raw_messages r) []),
                 temperature = or_default (raw_temperature r) 0.7,
                 max_tokens = or_default (raw_max_tokens r) 500,
                 top_p = or_default (raw_top_p r) 1.0,
                 stream = or_default (raw_stream r) False,
                 stop = raw_stop r \<rparr>)"

text \<open>The body of the repository's tests: one user message, everything else absent.\<close>

definition hello_body :: raw_request where
  "hello_body =
     \<lparr> raw_model = Some ''test-model'',
       raw_messages = Some [\<lparr> raw_role = Some ''user'', raw_content = Some ''Hello'' \<rparr>],
       raw_temperature = None, raw_max_tokens = None, raw_top_p = None,
       raw_stream = None, raw_stop = None \<rparr>"

record Usage =
  prompt_tokens :: int
  completion_tokens :: int
  total_tokens :: int

record Choice =
  index :: int
  message :: Message
  finish_reason :: string

record ChatCompletionResponse =
  resp_id :: string
  resp_object :: string
  created :: int
  resp_model :: string
  choices :: "Choice list"
  usage :: Usage

record HealthResponse =
  status :: string
  model_loaded :: bool

record ModelInfo =
  info_id :: string
  info_object :: string
  owned_by :: string

record ModelsResponse =
  list_object :: string
  data :: "ModelInfo list"

record ServerInfo =
  si_model_name :: string
  si_model_path :: string
  si_n_ctx :: int
  si_n_gpu_layers :: int
  si_model_loaded :: bool

section \<open>The model manager (app/llm.py)\<close>

text \<open>
  A handle is the identity of a \<^verbatim>\<open>Llama\<close> object. Every constructor call that
  succeeds makes a new object; its identity is the ordinal of the \<^verbatim>\<open>_load_model\<close>
  invocation that made it.

  What the outside world decides about one invocation of \<^verbatim>\<open>_load_model\<close>: whether
  the model file exists, and whether the constructor raises. A \<open>world\<close> gives that for
  the invocation number 0, 1, 2, ...
\<close>

type_synonym handle = nat

record load_env =
  path_exists :: bool
  llama_raises :: "exn option"

type_synonym world = "nat \<Rightarrow> load_env"

text \<open>
  The fields of \<^verbatim>\<open>LLMManager.__init__\<close>; \<open>lock\<close> is whether the \<^verbatim>\<open>asyncio.Lock\<close> is
  held. \<open>loads\<close> is instrumentation, not a field of the class: the number of
  \<^verbatim>\<open>_load_model\<close> invocations so far.
\<close>

record LLMManager =
  llm :: "handle option"
  lock :: bool
  loading :: bool
  loads :: nat

definition init_manager :: LLMManager where
  "init_manager = \<lparr> llm = None, lock = False, loading = False, loads = 0 \<rparr>"

text \<open>
  \<^verbatim>\<open>_load_model\<close>: the body of the \<^verbatim>\<open>try\<close> either raises (file missing, or the
  constructor's own exception) or yields the new object; \<^verbatim>\<open>except Exception as e\<close>
  re-raises as RuntimeError with the cause's text.
\<close>

definition load_model_body :: "Settings \<Rightarrow> load_env \<Rightarrow> handle \<Rightarrow> exn + handle" where
  "load_model_body settings env fresh =
     (if \<not> path_exists env then
        Inl (RuntimeError (''Model file not found: '' @ model_path settings @ ''. '' @
                           ''Please download a GGUF model to the models directory.''))
      else case llama_raises env of
             Some e \<Rightarrow> Inl e
           | None \<Rightarrow> Inr fresh)"

definition load_model :: "Settings \<Rightarrow> load_env \<Rightarrow> handle \<Rightarrow> exn + handle" where
  "load_model settings env fresh =
     (case load_model_body settings env fresh of
        Inl e \<Rightarrow> Inl (RuntimeError (''Failed to load model: '' @ str_exn e))
      | Inr h \<Rightarrow> Inr h)"

text \<open>
  \<^verbatim>\<open>get_llm\<close>, run without another task in between. With a handle present the lock is
  not touched. Without one the call takes the lock (and waits for ever if it is held),
  finds the handle still absent, loads, stores the result and releases the lock; when
  the load raises, \<^verbatim>\<open>async with\<close> releases the lock and the exception leaves the call
  with \<^verbatim>\<open>_llm\<close> not assigned.
\<close>

definition get_llm :: "Settings \<Rightarrow> world \<Rightarrow> LLMManager \<Rightarrow> handle outcome \<times> LLMManager" where
  "get_llm S W m =
     (case llm m of
        Some h \<Rightarrow> (Returns h, m)
      | None \<Rightarrow>
          if lock m then (Blocks, m)
          else
            (let m1 = m \<lparr> lock := True \<rparr>;
                 m2 = m1 \<lparr> loads := loads m1 + 1 \<rparr>
             in case load_model S (W (loads m1)) (loads m1) of
                  Inl e \<Rightarrow> (Raises e, m2 \<lparr> lock := False \<rparr>)
                | Inr h \<Rightarrow> (Returns h, m2 \<lparr> llm := Some h, lock := False \<rparr>)))"

text \<open>
  \<^verbatim>\<open>reload_model\<close>: under the lock, the old handle is dropped first
  (\<^verbatim>\<open>del self._llm; self._llm = None\<close>), then the load runs and its result is stored.
\<close>

definition reload_model :: "Settings \<Rightarrow> world \<Rightarrow> LLMManager \<Rightarrow> unit outcome \<times> LLMManager" where
  "reload_model S W m =
     (if lock m then (Blocks, m)
      else
        (let m1 = m \<lparr> lock := True \<rparr>;
             m2 = (if llm m1 \<noteq> None then m1 \<lparr> llm := None \<rparr> else m1);
             m3 = m2 \<lparr> loads := loads m2 + 1 \<rparr>
         in case load_model S (W (loads m2)) (loads m2) of
              Inl e \<Rightarrow> (Raises e, m3 \<lparr> lock := False \<rparr>)
            | Inr h \<Rightarrow> (Returns (), m3 \<lparr> llm := Some h, lock := False \<rparr>)))"

definition is_loaded :: "LLMManager \<Rightarrow> bool" where
  "is_loaded m = (llm m \<noteq> None)"

text \<open>\<open>n\<close> calls of \<^verbatim>\<open>get_llm\<close> one after the other, with what each returned.\<close>

fun get_llm_times ::
  "nat \<Rightarrow> Settings \<Rightarrow> world \<Rightarrow> LLMManager \<Rightarrow> handle outcome list \<times> LLMManager" where
  "get_llm_times 0 S W m = ([], m)"
| "get_llm_times (Suc n) S W m =
     (case get_llm S W m of
        (r, m') \<Rightarrow> (case get_llm_times n S W m' of (rs, m'') \<Rightarrow> (r # rs, m'')))"

text \<open>
  The sampling arguments both generation methods pass on, and the two entry points of
  the engine: calling the handle (\<^verbatim>\<open>llm(prompt, ..., echo=False)\<close>) and
  \<^verbatim>\<open>llm.create_chat_completion(messages=..., ...)\<close>. Each returns the engine's response
  or raises.
\<close>

record sampling =
  s_max_tokens :: int
  s_temperature :: real
  s_top_p :: real
  s_stop :: "string list option"

type_synonym 'r completion_fn = "handle \<Rightarrow> string \<Rightarrow> sampling \<Rightarrow> bool \<Rightarrow> exn + 'r"

type_synonym 'r chat_fn = "handle \<Rightarrow> (string \<times> string) list \<Rightarrow> sampling \<Rightarrow> exn + 'r"

definition generate_completion ::
  "Settings \<Rightarrow> world \<Rightarrow> 'r completion_fn \<Rightarrow> string \<Rightarrow> sampling \<Rightarrow> LLMManager \<Rightarrow>
     'r outcome \<times> LLMManager" where
  "generate_completion S W engine prompt p m =
     (case get_llm S W m of
        (Blocks, m') \<Rightarrow> (Blocks, m')
      | (Raises e, m') \<Rightarrow> (Raises e, m')
      | (Returns h, m') \<Rightarrow>
          (case engine h prompt p False of
             Inr response \<Rightarrow> (Returns response, m')
           | Inl e \<Rightarrow> (Raises (RuntimeError (''Generation failed: '' @ str_exn e)), m')))"

definition create_chat_completion ::
  "Settings \<Rightarrow> world \<Rightarrow> 'r chat_fn \<Rightarrow> (string \<times> string) list \<Rightarrow> sampling \<Rightarrow> LLMManager \<Rightarrow>
     'r outcome \<times> LLMManager" where
  "create_chat_completion S W engine msgs p m =
     (case get_llm S W m of
        (Blocks, m') \<Rightarrow> (Blocks, m')
      | (Raises e, m') \<Rightarrow> (Raises e, m')
      | (Returns h, m') \<Rightarrow>
          (case engine h msgs p of
             Inr response \<Rightarrow> (Returns response, m')
           | Inl e \<Rightarrow> (Raises (RuntimeError (''Chat completion failed: '' @ str_exn e)), m')))"

section \<open>Routes (app/routes)\<close>

text \<open>
  What a route answers: a body with status 200, the \<^verbatim>\<open>HTTPException\<close> it or one of
  its dependencies raised, or nothing because the manager call never came back.
\<close>

datatype 'a http_result = Response nat 'a | HTTPError http_exception | NoResponse

text \<open>
  The response of \<^verbatim>\<open>llm.create_chat_completion\<close>, read the way the route reads it:
  \<^verbatim>\<open>response["choices"][0]\<close>, \<^verbatim>\<open>["message"]["role"]\<close>, \<^verbatim>\<open>["message"]["content"]\<close>,
  \<^verbatim>\<open>.get("finish_reason", "stop")\<close> (\<open>None\<close> is the key being absent) and
  \<^verbatim>\<open>response["usage"]\<close> with its three counts.
\<close>

record engine_message =
  e_role :: string
  e_content :: string

record engine_choice =
  e_message :: engine_message
  e_finish_reason :: "string option"

record engine_usage =
  e_prompt_tokens :: int
  e_completion_tokens :: int
  e_total_tokens :: int

record engine_response =
  e_choices :: "engine_choice list"
  e_usage :: engine_usage

text \<open>
  The lines of the route from \<^verbatim>\<open>choice_data = response["choices"][0]\<close> to the
  construction of \<^verbatim>\<open>ChatCompletionResponse\<close>. An empty \<^verbatim>\<open>choices\<close> list raises
  IndexError; a role or finish reason outside its \<^verbatim>\<open>Literal\<close> makes the model
  constructor raise a validation error. \<open>uuid_hex\<close> is \<^verbatim>\<open>uuid.uuid4().hex\<close> and
  \<open>now\<close> is \<^verbatim>\<open>int(time.time())\<close>.
\<close>

definition build_response ::
  "Settings \<Rightarrow> string \<Rightarrow> int \<Rightarrow> engine_response \<Rightarrow> exn + ChatCompletionResponse" where
  "build_response S uuid_hex now response =
     (case e_choices response of
        [] \<Rightarrow> Inl (IndexError ''list index out of range'')
      | choice_data # rest \<Rightarrow>
          (let usage_data = e_usage response;
               r = e_role (e_message choice_data);
               fr = or_default (e_finish_reason choice_data) ''stop''
           in if r \<notin> set role_literal then Inl (ValidationError ''role'')
              else if fr \<notin> set finish_reason_literal then
                Inl (ValidationError ''finish_reason'')
              else
                Inr \<lparr> resp_id = ''chatcmpl-'' @ take 12 uuid_hex,
                      resp_object = ''chat.completion'',
                      created = now,
                      resp_model = model_name S,
                      choices =
                        [\<lparr> index = 0,
                           message = \<lparr> role = r, content = e_content (e_message choice_data) \<rparr>,
                           finish_reason = fr \<rparr>],
                      usage =
                        \<lparr> prompt_tokens = e_prompt_tokens usage_data,
                          completion_tokens = e_completion_tokens usage_data,
                          total_tokens = e_total_tokens usage_data \<rparr> \<rparr>))"

text \<open>
  The two \<^verbatim>\<open>except\<close> clauses of the chat route: RuntimeError first, then any other
  exception, both answered 500.
\<close>

definition chat_error :: "exn \<Rightarrow> http_exception" where
  "chat_error e =
     (if is_RuntimeError e then
        HTTPException HTTP_500_INTERNAL_SERVER_ERROR (''Generation failed: '' @ str_exn e) []
      else
        HTTPException HTTP_500_INTERNAL_SERVER_ERROR (''Unexpected error: '' @ str_exn e) [])"

text \<open>
  The route \<^verbatim>\<open>create_chat_completion\<close> of app/routes/chat.py, after its request was
  validated and its key verified.
\<close>

text \<open>
  The arguments the route hands to the manager: the messages as role and content pairs
  (the list comprehension over \<^verbatim>\<open>request.messages\<close>), and the sampling fields of the
  request.
\<close>

definition engine_messages :: "ChatCompletionRequest \<Rightarrow> (string \<times> string) list" where
  "engine_messages request = map (\<lambda>msg. (role msg, content msg)) (messages request)"

definition request_sampling :: "ChatCompletionRequest \<Rightarrow> sampling" where
  "request_sampling request =
     \<lparr> s_max_tokens = max_tokens request, s_temperature = temperature request,
       s_top_p = top_p request, s_stop = stop request \<rparr>"

definition route_create_chat_completion ::
  "Settings \<Rightarrow> world \<Rightarrow> engine_response chat_fn \<Rightarrow> string \<Rightarrow> int \<Rightarrow>
     ChatCompletionRequest \<Rightarrow> LLMManager \<Rightarrow> ChatCompletionResponse http_result \<times> LLMManager" where
  "route_create_chat_completion S W engine uuid_hex now request m =
     (case create_chat_completion S W engine (engine_messages request)
             (request_sampling request) m of
        (Blocks, m') \<Rightarrow> (NoResponse, m')
      | (Raises e, m') \<Rightarrow> (HTTPError (chat_error e), m')
      | (Returns response, m') \<Rightarrow>
          (case build_response S uuid_hex now response of
             Inl e \<Rightarrow> (HTTPError (chat_error e), m')
           | Inr completion_response \<Rightarrow> (Response 200 completion_response, m')))"

definition health_check :: "LLMManager \<Rightarrow> HealthResponse" where
  "health_check m = \<lparr> status = ''ok'', model_loaded = is_loaded m \<rparr>"

definition list_models :: "Settings \<Rightarrow> ModelsResponse" where
  "list_models S =
     \<lparr> list_object = ''list'',
       data = [\<lparr> info_id = model_name S, info_object = ''model'', owned_by = ''local'' \<rparr>] \<rparr>"

definition get_server_info :: "Settings \<Rightarrow> LLMManager \<Rightarrow> ServerInfo" where
  "get_server_info S m =
     \<lparr> si_model_name = model_name S, si_model_path = model_path S, si_n_ctx = n_ctx S,
       si_n_gpu_layers = n_gpu_layers S, si_model_loaded = is_loaded m \<rparr>"

text \<open>
  The three GET endpoints with the dependencies their signatures declare:
  \<^verbatim>\<open>health_check()\<close> has none, \<^verbatim>\<open>list_models\<close> depends on \<^verbatim>\<open>verify_api_key\<close>,
  \<^verbatim>\<open>get_server_info\<close> on \<^verbatim>\<open>verify_admin_key\<close>. Both verifiers depend on the
  \<^verbatim>\<open>HTTPBearer\<close> scheme, which is fastapi's: it is the parameter \<open>bearer\<close>, from the
  Authorization header (if any) to the credentials or an error.
\<close>

datatype get_endpoint = Health | Models | AdminInfo

datatype get_body = HealthBody HealthResponse | ModelsBody ModelsResponse | InfoBody ServerInfo

definition serve_get ::
  "Settings \<Rightarrow> (string option \<Rightarrow> http_exception + string) \<Rightarrow> LLMManager \<Rightarrow>
     get_endpoint \<Rightarrow> string option \<Rightarrow> get_body http_result" where
  "serve_get S bearer m ep authorization =
     (case ep of
        Health \<Rightarrow> Response 200 (HealthBody (health_check m))
      | Models \<Rightarrow>
          (case bearer authorization of
             Inl e \<Rightarrow> HTTPError e
           | Inr token \<Rightarrow>
               (case verify_api_key S token of
                  Inl e \<Rightarrow> HTTPError e
                | Inr api_key \<Rightarrow> Response 200 (ModelsBody (list_models S))))
      | AdminInfo \<Rightarrow>
          (case bearer authorization of
             Inl e \<Rightarrow> HTTPError e
           | Inr token \<Rightarrow>
               (case verify_admin_key S token of
                  Inl e \<Rightarrow> HTTPError e
                | Inr admin_key \<Rightarrow> Response 200 (InfoBody (get_server_info S m)))))"

text \<open>
  The security scheme of app/auth.py is \<^verbatim>\<open>HTTPBearer(scheme_name=..., description=...)\<close>,
  with \<^verbatim>\<open>auto_error\<close> left at its default. The class is fastapi's; what it does with the
  Authorization header of a request is written out here. The header value is split at
  its first space into scheme and credentials; a request without the header, or with an
  empty scheme or empty credentials, is answered 403 before any dependency of this
  repository runs (tests/test_auth.py asserts that status for a request without the
  header); so is a scheme other than bearer, compared without regard to case; otherwise
  the credentials are handed on.
\<close>

definition lower_char :: "char \<Rightarrow> char" where
  "lower_char c =
     (if 65 \<le> (of_char c :: nat) \<and> (of_char c :: nat) \<le> 90
      then char_of ((of_char c :: nat) + 32) else c)"

definition get_authorization_scheme_param :: "string option \<Rightarrow> string \<times> string" where
  "get_authorization_scheme_param authorization =
     (case authorization of
        None \<Rightarrow> ([], [])
      | Some v \<Rightarrow>
          if v = [] then ([], [])
          else (takeWhile (\<lambda>c. c \<noteq> CHR '' '') v, drop 1 (dropWhile (\<lambda>c. c \<noteq> CHR '' '') v)))"

definition http_bearer :: "string option \<Rightarrow> http_exception + string" where
  "http_bearer authorization =
     (case get_authorization_scheme_param authorization of
        (scheme, credentials) \<Rightarrow>
          if authorization = None \<or> authorization = Some [] \<or> scheme = [] \<or> credentials = []
          then Inl (HTTPException HTTP_403_FORBIDDEN ''Not authenticated'' [])
          else if map lower_char scheme \<noteq> ''bearer''
          then Inl (HTTPException HTTP_403_FORBIDDEN ''Invalid authentication credentials'' [])
          else Inr credentials)"

text \<open>
  What a request goes through before a route that declares
  \<^verbatim>\<open>Depends(verify_api_key)\<close> (the models list and the chat completions) or
  \<^verbatim>\<open>Depends(verify_admin_key)\<close> (the admin routes) runs: the scheme, then the verifier.
\<close>

definition require_api_key :: "Settings \<Rightarrow> string option \<Rightarrow> http_exception + string" where
  "require_api_key S authorization =
     (case http_bearer authorization of
        Inl e \<Rightarrow> Inl e
      | Inr token \<Rightarrow> verify_api_key S token)"

definition require_admin_key :: "Settings \<Rightarrow> string option \<Rightarrow> http_exception + string" where
  "require_admin_key S authorization =
     (case http_bearer authorization of
        Inl e \<Rightarrow> Inl e
      | Inr token \<Rightarrow> verify_admin_key S token)"

section \<open>Predicates of the properties, and fixtures\<close>

text \<open>
  The ranges of the request parameters as the specification states them, on the value a
  field has after defaults are filled in.
\<close>

definition within_ranges :: "raw_request \<Rightarrow> bool" where
  "within_ranges r =
     (0 \<le> or_default (raw_temperature r) 0.7 \<and> or_default (raw_temperature r) 0.7 \<le> 2 \<and>
      1 \<le> or_default (raw_max_tokens r) 500 \<and> or_default (raw_max_tokens r) 500 \<le> 32000 \<and>
      0 \<le> or_default (raw_top_p r) 1.0 \<and> or_default (raw_top_p r) 1.0 \<le> 1)"

text \<open>
  The rest of the body is as the model class requires: \<^verbatim>\<open>messages\<close> is present and
  every message has a role of the \<^verbatim>\<open>Literal\<close> and a content.
\<close>

definition well_formed_message :: "raw_message \<Rightarrow> bool" where
  "well_formed_message m =
     ((case raw_role m of None \<Rightarrow> False | Some r \<Rightarrow> r \<in> set role_literal) \<and>
      raw_content m \<noteq> None)"

definition well_formed_messages :: "raw_request \<Rightarrow> bool" where
  "well_formed_messages r =
     (case raw_messages r of None \<Rightarrow> False | Some ms \<Rightarrow> list_all well_formed_message ms)"

text \<open>
  Every handle the manager holds was made by one of the loads counted so far. It holds of
  a new manager and every method keeps it.
\<close>

definition handle_known :: "LLMManager \<Rightarrow> bool" where
  "handle_known m = (case llm m of None \<Rightarrow> True | Some h \<Rightarrow> h < loads m)"

text \<open>Three situations of one load: file missing, constructor raising, all well.\<close>

definition missing_file :: load_env where
  "missing_file = \<lparr> path_exists = False, llama_raises = None \<rparr>"

definition broken_engine :: load_env where
  "broken_engine = \<lparr> path_exists = True, llama_raises = Some (OtherError ''out of memory'') \<rparr>"

definition loadable :: load_env where
  "loadable = \<lparr> path_exists = True, llama_raises = None \<rparr>"

text \<open>The manager after one successful load.\<close>

definition loaded_manager :: LLMManager where
  "loaded_manager = init_manager \<lparr> llm := Some 0, loads := 1 \<rparr>"

text \<open>Stub engines: one that answers with a fixed completion, one that raises.\<close>

definition stub_response :: engine_response where
  "stub_response =
     \<lparr> e_choices =
         [\<lparr> e_message = \<lparr> e_role = ''assistant'', e_content = ''Hi there!'' \<rparr>,
            e_finish_reason = Some ''stop'' \<rparr>],
       e_usage = \<lparr> e_prompt_tokens = 5, e_completion_tokens = 7, e_total_tokens = 12 \<rparr> \<rparr>"

definition stub_chat :: "engine_response chat_fn" where
  "stub_chat h msgs p = Inr stub_response"

definition failing_chat :: "engine_response chat_fn" where
  "failing_chat h msgs p = Inl (OtherError ''context window exceeded'')"

definition failing_completion :: "engine_response completion_fn" where
  "failing_completion h prompt p echo = Inl (OtherError ''context window exceeded'')"

definition stub_completion :: "engine_response completion_fn" where
  "stub_completion h prompt p echo = Inr stub_response"

text \<open>The request of the round-trip test: one user message, temperature 0.7, 100 tokens.\<close>

definition hello_request :: ChatCompletionRequest where
  "hello_request =
     \<lparr> model = ''test-model'', messages = [\<lparr> role = ''user'', content = ''Hello'' \<rparr>],
       temperature = 0.7, max_tokens = 100, top_p = 1.0, stream = False, stop = None \<rparr>"

text \<open>A security scheme that lets no request through, and one that passes the header on.\<close>

definition bearer_rejects :: "string option \<Rightarrow> http_exception + string" where
  "bearer_rejects authorization = Inl (HTTPException 403 ''Not authenticated'' [])"

definition bearer_passes :: "string option \<Rightarrow> http_exception + string" where
  "bearer_passes authorization =
     (case authorization of
        None \<Rightarrow> Inl (HTTPException 403 ''Not authenticated'' [])
      | Some token \<Rightarrow> Inr token)"

definition default_sampling :: sampling where
  "default_sampling =
     \<lparr> s_max_tokens = 500, s_temperature = 0.7, s_top_p = 1.0, s_stop = None \<rparr>"

section \<open>Concurrent callers of \<^verbatim>\<open>get_llm\<close>\<close>

text \<open>
  Several tasks run \<^verbatim>\<open>get_llm\<close> on one manager. A task is at one of these points:
  \<^item> \<open>Check1\<close>: before \<^verbatim>\<open>if self._llm is None\<close> (line 40);
  \<^item> \<open>Acquire\<close>: at \<^verbatim>\<open>async with self._lock\<close> (line 41), not yet holding the lock;
  \<^item> \<open>Check2\<close>: holding the lock, before the second \<^verbatim>\<open>if self._llm is None\<close> (line 42);
  \<^item> \<open>Loading k\<close>: inside \<^verbatim>\<open>await self._load_model()\<close> (line 44), which is invocation
    number \<open>k\<close>;
  \<^item> \<open>Release\<close>: leaving the \<^verbatim>\<open>async with\<close> block normally;
  \<^item> \<open>ReleaseRaise e\<close>: leaving it with the exception of the load;
  \<^item> \<open>Return\<close>: before \<^verbatim>\<open>return self._llm\<close> (line 46);
  \<^item> \<open>Done r\<close>: returned \<open>r\<close>; \<open>Failed e\<close>: raised \<open>e\<close>.
\<close>

datatype pc =
    Check1
  | Acquire
  | Check2
  | Loading nat
  | Release
  | ReleaseRaise exn
  | Return
  | Done "handle option"
  | Failed exn

record system =
  mgr :: LLMManager
  tasks :: "pc list"

text \<open>
  One step of task \<open>i\<close>. A task at \<open>Acquire\<close> moves only when the lock is free; a task
  that has finished does not move. Every statement is a step of its own, so the
  schedules of the event loop, which changes task only at an \<^verbatim>\<open>await\<close>, are among the
  schedules here.
\<close>

definition step :: "Settings \<Rightarrow> world \<Rightarrow> nat \<Rightarrow> system \<Rightarrow> system" where
  "step S W i s =
     (let m = mgr s; ts = tasks s in
      case ts ! i of
        Check1 \<Rightarrow> s \<lparr> tasks := ts[i := (if llm m = None then Acquire else Return)] \<rparr>
      | Acquire \<Rightarrow>
          if lock m then s
          else s \<lparr> mgr := m \<lparr> lock := True \<rparr>, tasks := ts[i := Check2] \<rparr>
      | Check2 \<Rightarrow>
          if llm m = None then
            s \<lparr> mgr := m \<lparr> loads := loads m + 1 \<rparr>, tasks := ts[i := Loading (loads m)] \<rparr>
          else s \<lparr> tasks := ts[i := Release] \<rparr>
      | Loading k \<Rightarrow>
          (case load_model S (W k) k of
             Inl e \<Rightarrow> s \<lparr> tasks := ts[i := ReleaseRaise e] \<rparr>
           | Inr h \<Rightarrow> s \<lparr> mgr := m \<lparr> llm := Some h \<rparr>, tasks := ts[i := Release] \<rparr>)
      | Release \<Rightarrow> s \<lparr> mgr := m \<lparr> lock := False \<rparr>, tasks := ts[i := Return] \<rparr>
      | ReleaseRaise e \<Rightarrow> s \<lparr> mgr := m \<lparr> lock := False \<rparr>, tasks := ts[i := Failed e] \<rparr>
      | Return \<Rightarrow> s \<lparr> tasks := ts[i := Done (llm m)] \<rparr>
      | Done r \<Rightarrow> s
      | Failed e \<Rightarrow> s)"

text \<open>
  A schedule is the list of the tasks that move, in order; a number that names no task
  is skipped.
\<close>

fun run :: "Settings \<Rightarrow> world \<Rightarrow> nat list \<Rightarrow> system \<Rightarrow> system" where
  "run S W [] s = s"
| "run S W (i # sched) s =
     run S W sched (if i < length (tasks s) then step S W i s else s)"

text \<open>\<open>n\<close> callers about to enter \<^verbatim>\<open>get_llm\<close> on a new manager.\<close>

definition start :: "nat \<Rightarrow> system" where
  "start n = \<lparr> mgr = init_manager, tasks = replicate n Check1 \<rparr>"

text \<open>The schedule on which the callers run one after the other, six steps each.\<close>

definition sequential_schedule :: "nat \<Rightarrow> nat list" where
  "sequential_schedule n = concat (map (replicate 6) [0..<n])"

fun in_critical :: "pc \<Rightarrow> bool" where
  "in_critical Check2 = True"
| "in_critical (Loading k) = True"
| "in_critical Release = True"
| "in_critical (ReleaseRaise e) = True"
| "in_critical p = False"

fun is_loading :: "pc \<Rightarrow> bool" where
  "is_loading (Loading k) = True"
| "is_loading p = False"

fun finished :: "pc \<Rightarrow> bool" where
  "finished (Done r) = True"
| "finished (Failed e) = True"
| "finished p = False"

text \<open>
  The lock is held exactly when one task is between taking and releasing it, and no
  more than one task ever is.
\<close>

definition critical_count :: "system \<Rightarrow> nat" where
  "critical_count s = length (filter in_critical (tasks s))"

definition mutex_inv :: "system \<Rightarrow> bool" where
  "mutex_inv s \<longleftrightarrow> critical_count s = (if lock (mgr s) then 1 else 0)"

text \<open>
  What holds at each point of a task when the first load succeeds (its handle is 0).
\<close>

fun pc_ok :: "LLMManager \<Rightarrow> pc \<Rightarrow> bool" where
  "pc_ok m (Loading k) = (k = 0 \<and> loads m = 1)"
| "pc_ok m Release = (llm m = Some 0)"
| "pc_ok m (ReleaseRaise e) = False"
| "pc_ok m Return = (llm m = Some 0)"
| "pc_ok m (Done r) = (r = Some 0 \<and> llm m = Some 0)"
| "pc_ok m (Failed e) = False"
| "pc_ok m p = True"

definition once_inv :: "system \<Rightarrow> bool" where
  "once_inv s \<longleftrightarrow>
     (\<forall>p \<in> set (tasks s). pc_ok (mgr s) p) \<and>
     (llm (mgr s) = None \<or> llm (mgr s) = Some 0) \<and>
     (llm (mgr s) = Some 0 \<longrightarrow> loads (mgr s) = 1) \<and>
     loads (mgr s) \<le> 1 \<and>
     (loads (mgr s) = 1 \<and> llm (mgr s) = None \<longrightarrow> Loading 0 \<in> set (tasks s))"

section \<open>Theorems: authentication\<close>






lemma http_bearer_Inr:
  "http_bearer a = Inr token \<Longrightarrow> token \<noteq> []"
  by (auto simp: http_bearer_def get_authorization_scheme_param_def
        split: option.splits if_splits prod.splits)

lemma http_bearer_Inl:
  "http_bearer a = Inl e \<Longrightarrow> status_code e = 403"
  by (auto simp: http_bearer_def get_authorization_scheme_param_def HTTP_403_FORBIDDEN_def
        split: option.splits if_splits prod.splits)








lemma missing_api_key_branch_unreached:
  "require_api_key S a \<noteq> Inl (HTTPException 401 ''Missing API key'' h) \<and>
   require_admin_key S a \<noteq> Inl (HTTPException 401 ''Missing API key'' h)"
  by (auto simp: require_api_key_def require_admin_key_def verify_api_key_def
        verify_admin_key_def HTTP_401_UNAUTHORIZED_def HTTP_403_FORBIDDEN_def
        dest: http_bearer_Inl http_bearer_Inr split: sum.splits if_splits)




section \<open>Theorems: configuration\<close>

lemma validate_required_fields_raises_iff:
  "(\<exists>m. validate_required_fields S = Inl (ValueError m)) \<longleftrightarrow>
     api_keys S = [] \<or> admin_api_key S = []"
  by (simp add: validate_required_fields_def)

lemma import_config_never_fails:
  "\<exists>ws. import_config S = Inr (S, ws) \<and>
     (ws \<noteq> [] \<longleftrightarrow> api_keys S = [] \<or> admin_api_key S = [])"
  by (simp add: import_config_def validate_required_fields_def)

lemma import_config_warning:
  "validate_required_fields S = Inl (ValueError msg) \<Longrightarrow>
     import_config S = Inr (S, [''Configuration validation failed: '' @ msg])"
  by (simp add: import_config_def)

text \<open>
  Claim C9, as the code has it. \<^verbatim>\<open>validate_required_fields\<close> raises ValueError exactly
  when the key list is empty or the admin key is the empty string, but the module body
  catches that error: importing the configuration always succeeds and hands back the
  settings unchanged, with a warning issued exactly in those cases; the warning is the
  one text \<^verbatim>\<open>Configuration validation failed:\<close> followed by the message of the error.
\<close>

theorem config_validation_warns:
  "((\<exists>m. validate_required_fields S = Inl (ValueError m)) \<longleftrightarrow>
      api_keys S = [] \<or> admin_api_key S = []) \<and>
   (\<exists>ws. import_config S = Inr (S, ws) \<and>
      (ws \<noteq> [] \<longleftrightarrow> api_keys S = [] \<or> admin_api_key S = [])) \<and>
   (validate_required_fields S = Inl (ValueError msg) \<longrightarrow>
      import_config S = Inr (S, [''Configuration validation failed: '' @ msg]))"
  using validate_required_fields_raises_iff [of S] import_config_never_fails [of S]
    import_config_warning [of S msg]
  by blast

theorem config_validation_warns_witness:
  "(\<exists>m. validate_required_fields (test_settings \<lparr> admin_api_key := [] \<rparr>) =
          Inl (ValueError m)) \<and>
   (\<exists>ws. import_config (test_settings \<lparr> admin_api_key := [] \<rparr>) =
          Inr (test_settings \<lparr> admin_api_key := [] \<rparr>, ws) \<and> ws \<noteq> []) \<and>
   import_config test_settings = Inr (test_settings, [])"
proof -
  have a: "admin_api_key (test_settings \<lparr> admin_api_key := [] \<rparr>) = []" by simp
  have b: "api_keys test_settings \<noteq> [] \<and> admin_api_key test_settings \<noteq> []"
    by (simp add: test_settings_def default_settings_def)
  show ?thesis
    using config_validation_warns [of "test_settings \<lparr> admin_api_key := [] \<rparr>"]
      config_validation_warns [of test_settings] a b
    by auto
qed

text \<open>
  Claim C9 as written fails: with the default configuration (no API key, no admin key)
  the import does not end in an error; it returns the settings and one warning.
\<close>

theorem import_config_counterexample:
  "api_keys default_settings = [] \<and> admin_api_key default_settings = [] \<and>
   import_config default_settings =
     Inr (default_settings,
          [''Configuration validation failed: At least one API key must be configured. Set API_KEYS environment variable.''])"
  by (simp add: import_config_def validate_required_fields_def default_settings_def)

section \<open>Theorems: the model manager\<close>

lemma load_model_fails_RuntimeError:
  "load_model S env k = Inl e \<Longrightarrow> is_RuntimeError e"
  by (auto simp: load_model_def split: sum.splits)

lemma load_model_handle:
  "load_model S env k = Inr h \<Longrightarrow> h = k"
  by (auto simp: load_model_def load_model_body_def split: sum.splits if_splits option.splits)

lemma load_model_succeeds_iff:
  "(\<exists>h. load_model S env k = Inr h) \<longleftrightarrow> path_exists env \<and> llama_raises env = None"
  by (auto simp: load_model_def load_model_body_def split: sum.splits if_splits option.splits)

lemma get_llm_loaded:
  "llm m = Some h \<Longrightarrow> get_llm S W m = (Returns h, m)"
  by (simp add: get_llm_def)

lemma get_llm_times_loaded:
  "llm m = Some h \<Longrightarrow> get_llm_times n S W m = (replicate n (Returns h), m)"
  by (induction n) (simp_all add: get_llm_loaded)

lemma reload_model_failure:
  assumes "\<not> lock m" and "load_model S (W (loads m)) (loads m) = Inl e"
  shows "reload_model S W m = (Raises e, m \<lparr> llm := None, loads := loads m + 1 \<rparr>)"
  using assms by (cases "llm m") (simp_all add: reload_model_def Let_def)

lemma reload_model_success:
  assumes "reload_model S W m = (Returns (), m')"
  shows "\<not> lock m \<and> load_model S (W (loads m)) (loads m) = Inr (loads m) \<and>
         m' = m \<lparr> llm := Some (loads m), loads := loads m + 1 \<rparr>"
  using assms
  by (cases "llm m")
     (auto simp: reload_model_def Let_def split: if_splits sum.splits dest: load_model_handle)

lemma get_llm_failure:
  assumes "llm m = None" and "\<not> lock m" and "load_model S (W (loads m)) (loads m) = Inl e"
  shows "get_llm S W m = (Raises e, m \<lparr> loads := loads m + 1 \<rparr>)"
  using assms by (simp add: get_llm_def Let_def)

lemma get_llm_unloaded_success:
  assumes "llm m = None" and "\<not> lock m" and "load_model S (W (loads m)) (loads m) = Inr h"
  shows "get_llm S W m = (Returns h, m \<lparr> llm := Some h, loads := loads m + 1 \<rparr>)"
  using assms by (simp add: get_llm_def Let_def)

lemma get_llm_Returns:
  assumes "get_llm S W m = (Returns h, m')"
  shows "llm m' = Some h"
  using assms by (auto simp: get_llm_def Let_def split: option.splits if_splits sum.splits)

text \<open>
  Claim C2. When \<^verbatim>\<open>reload_model\<close> gets the lock and the load it runs fails, the call
  raises that RuntimeError, and afterwards the manager holds no handle, whatever it held
  before: \<^verbatim>\<open>is_loaded\<close> is false and the lock is free again.
\<close>

theorem reload_failure_leaves_unloaded:
  assumes "\<not> lock m" and "load_model S (W (loads m)) (loads m) = Inl e"
  shows "\<exists>m'. reload_model S W m = (Raises e, m') \<and> is_RuntimeError e \<and>
           llm m' = None \<and> \<not> is_loaded m' \<and> \<not> lock m'"
  using reload_model_failure [of m S W e] load_model_fails_RuntimeError [of S _ _ e] assms
  by (simp add: is_loaded_def)

theorem reload_failure_leaves_unloaded_witness:
  "is_loaded loaded_manager \<and>
   (\<exists>m'. reload_model test_settings (\<lambda>k. broken_engine) loaded_manager =
            (Raises (RuntimeError ''Failed to load model: out of memory''), m') \<and>
          llm m' = None \<and> \<not> is_loaded m' \<and> \<not> lock m')"
proof -
  have a: "\<not> lock loaded_manager"
    by (simp add: loaded_manager_def init_manager_def)
  have b: "load_model test_settings ((\<lambda>k. broken_engine) (loads loaded_manager))
             (loads loaded_manager) = Inl (RuntimeError ''Failed to load model: out of memory'')"
    by (simp add: load_model_def load_model_body_def broken_engine_def)
  have c: "is_loaded loaded_manager"
    by (simp add: is_loaded_def loaded_manager_def)
  from reload_failure_leaves_unloaded [of loaded_manager test_settings "\<lambda>k. broken_engine", OF a b] c
  show ?thesis by blast
qed

lemma handle_known_init: "handle_known init_manager"
  by (simp add: handle_known_def init_manager_def)

lemma handle_known_get_llm:
  "handle_known m \<Longrightarrow> get_llm S W m = (r, m') \<Longrightarrow> handle_known m'"
  by (auto simp: handle_known_def get_llm_def Let_def
           split: option.splits if_splits sum.splits dest: load_model_handle)

lemma handle_known_reload_model:
  "handle_known m \<Longrightarrow> reload_model S W m = (r, m') \<Longrightarrow> handle_known m'"
  by (auto simp: handle_known_def reload_model_def Let_def
           split: option.splits if_splits sum.splits dest: load_model_handle)

text \<open>
  Claim C3. When \<^verbatim>\<open>reload_model\<close> returns normally, the manager holds the handle the
  load just made, which is not the handle held before the reload, and any number of
  \<^verbatim>\<open>get_llm\<close> calls after it return that new handle and leave the manager as it is.
\<close>

theorem reload_success_new_handle:
  assumes "handle_known m" and "reload_model S W m = (Returns (), m')"
  shows "\<exists>h. load_model S (W (loads m)) (loads m) = Inr h \<and> llm m' = Some h \<and>
           llm m \<noteq> Some h \<and>
           (\<forall>n W'. get_llm_times n S W' m' = (replicate n (Returns h), m'))"
proof -
  from reload_model_success [of S W m m'] assms(2)
  have l: "load_model S (W (loads m)) (loads m) = Inr (loads m)"
    and m': "m' = m \<lparr> llm := Some (loads m), loads := loads m + 1 \<rparr>" by simp_all
  from m' have new: "llm m' = Some (loads m)" by simp
  from assms(1) have old: "llm m \<noteq> Some (loads m)"
    by (auto simp: handle_known_def)
  from new have "\<forall>n W'. get_llm_times n S W' m' = (replicate n (Returns (loads m)), m')"
    by (simp add: get_llm_times_loaded)
  with l new old show ?thesis by blast
qed

theorem reload_success_new_handle_witness:
  "handle_known loaded_manager \<and> llm loaded_manager = Some 0 \<and>
   (\<exists>m'. reload_model test_settings (\<lambda>k. loadable) loaded_manager = (Returns (), m') \<and>
          llm m' = Some 1 \<and>
          get_llm_times 3 test_settings (\<lambda>k. missing_file) m' =
            ([Returns 1, Returns 1, Returns 1], m'))"
proof -
  let ?m' = "loaded_manager \<lparr> llm := Some 1, loads := 2 \<rparr>"
  have a: "handle_known loaded_manager"
    by (simp add: handle_known_def loaded_manager_def init_manager_def)
  have b: "reload_model test_settings (\<lambda>k. loadable) loaded_manager = (Returns (), ?m')"
    by (simp add: reload_model_def Let_def load_model_def load_model_body_def loadable_def
          loaded_manager_def init_manager_def)
  from reload_success_new_handle [of loaded_manager test_settings "\<lambda>k. loadable" ?m', OF a b]
  obtain h where h: "load_model test_settings loadable (loads loaded_manager) = Inr h"
    "llm ?m' = Some h"
    "\<forall>n W'. get_llm_times n test_settings W' ?m' = (replicate n (Returns h), ?m')"
    by blast
  from h(2) have "h = 1" by simp
  with h(3) have "get_llm_times 3 test_settings (\<lambda>k. missing_file) ?m' =
      (replicate 3 (Returns 1), ?m')" by blast
  then have "get_llm_times 3 test_settings (\<lambda>k. missing_file) ?m' =
      ([Returns 1, Returns 1, Returns 1], ?m')" by (simp add: numeral_3_eq_3)
  with a b show ?thesis by (simp add: loaded_manager_def)
qed

text \<open>
  Claim C4. When \<^verbatim>\<open>get_llm\<close> finds no handle, gets the lock and the load fails, the call
  raises that RuntimeError and the manager is as it was, with no handle and the lock
  free (only the count of loads has grown). The next \<^verbatim>\<open>get_llm\<close> therefore runs the
  load again: the count grows once more, and if that load succeeds the call returns its
  handle.
\<close>

theorem get_llm_failure_allows_retry:
  assumes "llm m = None" and "\<not> lock m"
    and "load_model S (W (loads m)) (loads m) = Inl e"
  shows "\<exists>m'. get_llm S W m = (Raises e, m') \<and> is_RuntimeError e \<and>
           m' = m \<lparr> loads := loads m + 1 \<rparr> \<and> llm m' = None \<and> \<not> is_loaded m' \<and>
           (\<forall>W'. loads (snd (get_llm S W' m')) = loads m' + 1 \<and>
                 (\<forall>h. load_model S (W' (loads m')) (loads m') = Inr h \<longrightarrow>
                        fst (get_llm S W' m') = Returns h \<and>
                        llm (snd (get_llm S W' m')) = Some h))"
proof -
  let ?m' = "m \<lparr> loads := loads m + 1 \<rparr>"
  have run: "get_llm S W m = (Raises e, ?m')"
    using get_llm_failure [of m S W e] assms by simp
  have err: "is_RuntimeError e"
    using load_model_fails_RuntimeError [of S _ _ e] assms(3) by simp
  have none: "llm ?m' = None" and free: "\<not> lock ?m'"
    using assms by simp_all
  have again: "loads (snd (get_llm S W' ?m')) = loads ?m' + 1 \<and>
                 (\<forall>h. load_model S (W' (loads ?m')) (loads ?m') = Inr h \<longrightarrow>
                        fst (get_llm S W' ?m') = Returns h \<and>
                        llm (snd (get_llm S W' ?m')) = Some h)" for W'
  proof (cases "load_model S (W' (loads ?m')) (loads ?m')")
    case (Inl e')
    with get_llm_failure [of ?m' S W' e'] none free show ?thesis by simp
  next
    case (Inr h)
    with get_llm_unloaded_success [of ?m' S W' h] none free show ?thesis by simp
  qed
  from run err none again show ?thesis by (simp add: is_loaded_def)
qed

theorem get_llm_failure_allows_retry_witness:
  "\<exists>m'. get_llm test_settings (\<lambda>k. if k = 0 then missing_file else loadable) init_manager =
          (Raises (RuntimeError ''Failed to load model: Model file not found: /app/models/model.gguf. Please download a GGUF model to the models directory.''), m') \<and>
        llm m' = None \<and>
        fst (get_llm test_settings (\<lambda>k. if k = 0 then missing_file else loadable) m') =
          Returns 1"
proof -
  let ?W = "\<lambda>k::nat. if k = 0 then missing_file else loadable"
  let ?e = "RuntimeError ''Failed to load model: Model file not found: /app/models/model.gguf. Please download a GGUF model to the models directory.''"
  have a: "llm init_manager = None" and b: "\<not> lock init_manager"
    by (simp_all add: init_manager_def)
  have c: "load_model test_settings (?W (loads init_manager)) (loads init_manager) = Inl ?e"
    by (simp add: load_model_def load_model_body_def missing_file_def init_manager_def
          test_settings_def default_settings_def)
  from get_llm_failure_allows_retry [of init_manager test_settings ?W ?e, OF a b c]
  obtain m' where m': "get_llm test_settings ?W init_manager = (Raises ?e, m')"
    "m' = init_manager \<lparr> loads := loads init_manager + 1 \<rparr>" "llm m' = None"
    "\<forall>W'. loads (snd (get_llm test_settings W' m')) = loads m' + 1 \<and>
          (\<forall>h. load_model test_settings (W' (loads m')) (loads m') = Inr h \<longrightarrow>
                 fst (get_llm test_settings W' m') = Returns h \<and>
                 llm (snd (get_llm test_settings W' m')) = Some h)"
    by blast
  have d: "load_model test_settings (?W (loads m')) (loads m') = Inr 1"
    by (simp add: m'(2) load_model_def load_model_body_def loadable_def init_manager_def)
  from m'(4) [THEN spec, of ?W] d
  have "fst (get_llm test_settings ?W m') = Returns 1" by simp
  with m'(1,3) show ?thesis by blast
qed

lemma generate_completion_after_get_llm:
  assumes "get_llm S W m = (Returns h, m1)"
  shows "generate_completion S W engine prompt p m =
           ((case engine h prompt p False of
               Inr response \<Rightarrow> Returns response
             | Inl e \<Rightarrow> Raises (RuntimeError (''Generation failed: '' @ str_exn e))), m1)"
  using assms by (simp add: generate_completion_def split: sum.splits)

lemma create_chat_completion_after_get_llm:
  assumes "get_llm S W m = (Returns h, m1)"
  shows "create_chat_completion S W engine msgs p m =
           ((case engine h msgs p of
               Inr response \<Rightarrow> Returns response
             | Inl e \<Rightarrow> Raises (RuntimeError (''Chat completion failed: '' @ str_exn e))), m1)"
  using assms by (simp add: create_chat_completion_def split: sum.splits)

text \<open>
  Claim C10. Let the \<^verbatim>\<open>get_llm\<close> inside a generation call return the handle \<open>h\<close>.
  Whether the engine then returns or raises, \<^verbatim>\<open>generate_completion\<close> and
  \<^verbatim>\<open>create_chat_completion\<close> leave the manager exactly as \<^verbatim>\<open>get_llm\<close> left it: it holds
  \<open>h\<close>, \<^verbatim>\<open>is_loaded\<close> is true, the next \<^verbatim>\<open>get_llm\<close> returns \<open>h\<close>. An engine failure
  comes out as a RuntimeError. When the handle was there before the call, the call does
  not change the manager at all.
\<close>

theorem generation_keeps_handle:
  assumes "get_llm S W m = (Returns h, m1)"
  shows "snd (generate_completion S W engine1 prompt p m) = m1 \<and>
         snd (create_chat_completion S W engine2 msgs p m) = m1 \<and>
         llm m1 = Some h \<and> is_loaded m1 \<and>
         (\<forall>W'. get_llm S W' m1 = (Returns h, m1)) \<and>
         (\<forall>e. engine1 h prompt p False = Inl e \<longrightarrow>
            fst (generate_completion S W engine1 prompt p m) =
              Raises (RuntimeError (''Generation failed: '' @ str_exn e))) \<and>
         (\<forall>e. engine2 h msgs p = Inl e \<longrightarrow>
            fst (create_chat_completion S W engine2 msgs p m) =
              Raises (RuntimeError (''Chat completion failed: '' @ str_exn e))) \<and>
         (llm m = Some h \<longrightarrow> m1 = m)"
proof -
  have held: "llm m1 = Some h"
    using get_llm_Returns [of S W m h m1] assms by simp
  have same: "llm m = Some h \<longrightarrow> m1 = m"
    using assms by (auto simp: get_llm_loaded)
  show ?thesis
    using generate_completion_after_get_llm [of S W m h m1 engine1 prompt p]
      create_chat_completion_after_get_llm [of S W m h m1 engine2 msgs p]
      assms held same
    by (simp add: is_loaded_def get_llm_loaded)
qed

theorem generation_keeps_handle_witness:
  "get_llm test_settings (\<lambda>k. loadable) loaded_manager = (Returns 0, loaded_manager) \<and>
   generate_completion test_settings (\<lambda>k. loadable) failing_completion ''Hello''
       default_sampling loaded_manager =
     (Raises (RuntimeError ''Generation failed: context window exceeded''), loaded_manager) \<and>
   create_chat_completion test_settings (\<lambda>k. loadable) failing_chat [(''user'', ''Hello'')]
       default_sampling loaded_manager =
     (Raises (RuntimeError ''Chat completion failed: context window exceeded''),
      loaded_manager) \<and>
   snd (create_chat_completion test_settings (\<lambda>k. loadable) stub_chat [(''user'', ''Hello'')]
       default_sampling loaded_manager) = loaded_manager \<and>
   is_loaded loaded_manager"
proof -
  let ?W = "\<lambda>k::nat. loadable"
  have a: "get_llm test_settings ?W loaded_manager = (Returns 0, loaded_manager)"
    by (simp add: get_llm_def loaded_manager_def)
  have f1: "failing_completion 0 ''Hello'' default_sampling False =
              Inl (OtherError ''context window exceeded'')"
    by (simp add: failing_completion_def)
  have f2: "failing_chat 0 [(''user'', ''Hello'')] default_sampling =
              Inl (OtherError ''context window exceeded'')"
    by (simp add: failing_chat_def)
  note g1 = generation_keeps_handle [of test_settings ?W loaded_manager 0 loaded_manager
      failing_completion "''Hello''" default_sampling failing_chat "[(''user'', ''Hello'')]", OF a]
  note g2 = generation_keeps_handle [of test_settings ?W loaded_manager 0 loaded_manager
      failing_completion "''Hello''" default_sampling stub_chat "[(''user'', ''Hello'')]", OF a]
  from g1 f1 have r1: "generate_completion test_settings ?W failing_completion ''Hello''
       default_sampling loaded_manager =
     (Raises (RuntimeError ''Generation failed: context window exceeded''), loaded_manager)"
    by (simp add: prod_eq_iff)
  from g1 f2 have r2: "create_chat_completion test_settings ?W failing_chat
       [(''user'', ''Hello'')] default_sampling loaded_manager =
     (Raises (RuntimeError ''Chat completion failed: context window exceeded''),
      loaded_manager)"
    by (simp add: prod_eq_iff)
  from g2 have r3: "snd (create_chat_completion test_settings ?W stub_chat
       [(''user'', ''Hello'')] default_sampling loaded_manager) = loaded_manager"
    by simp
  from g1 have r4: "is_loaded loaded_manager" by simp
  from a r1 r2 r3 r4 show ?thesis by simp
qed

section \<open>Theorems: request validation\<close>

lemma check_message_empty_iff:
  "check_message loc m = [] \<longleftrightarrow> well_formed_message m"
  by (auto simp: check_message_def well_formed_message_def split: option.splits)

lemma check_messages_empty_iff:
  "check_messages i ms = [] \<longleftrightarrow> list_all well_formed_message ms"
  by (induction ms arbitrary: i) (simp_all add: check_message_empty_iff)

lemma check_range_empty_iff:
  "check_range name lo hi v = [] \<longleftrightarrow> lo \<le> v \<and> v \<le> hi"
  by (simp add: check_range_def)

lemma request_errors_empty_iff:
  "request_errors r = [] \<longleftrightarrow> well_formed_messages r \<and> within_ranges r"
  by (cases "raw_messages r"; cases "raw_temperature r"; cases "raw_max_tokens r";
      cases "raw_top_p r")
     (auto simp: request_errors_def well_formed_messages_def within_ranges_def
        check_messages_empty_iff check_range_empty_iff)

lemma parse_request_accepts_iff:
  "(\<exists>req. parse_request r = Inr req) \<longleftrightarrow> well_formed_messages r \<and> within_ranges r"
  using request_errors_empty_iff [of r] by (auto simp: parse_request_def)

lemma parse_request_rejects_iff:
  "(\<exists>errs. parse_request r = Inl (422, errs) \<and> errs \<noteq> []) \<longleftrightarrow>
     \<not> (well_formed_messages r \<and> within_ranges r)"
  using request_errors_empty_iff [of r]
  by (auto simp: parse_request_def HTTP_422_UNPROCESSABLE_def)

lemma parse_request_values:
  "parse_request r = Inr req \<Longrightarrow>
     temperature req = or_default (raw_temperature r) 0.7 \<and>
     max_tokens req = or_default (raw_max_tokens r) 500 \<and>
     top_p req = or_default (raw_top_p r) 1.0"
  by (auto simp: parse_request_def split: if_splits)

text \<open>
  Claim C6, as the code has it. A body that is rejected is answered 422 with a non-empty
  list of errors. A body that is accepted has its temperature in [0,2], its max_tokens in
  [1,32000] and its top_p in [0,1]; a body outside these ranges is rejected; and a body
  whose messages are present and well formed is accepted exactly when it is within the
  ranges.
\<close>

theorem request_ranges_validated:
  "(parse_request r = Inr req \<longrightarrow>
      within_ranges r \<and>
      0 \<le> temperature req \<and> temperature req \<le> 2 \<and>
      1 \<le> max_tokens req \<and> max_tokens req \<le> 32000 \<and>
      0 \<le> top_p req \<and> top_p req \<le> 1) \<and>
   (\<not> within_ranges r \<longrightarrow> (\<exists>errs. parse_request r = Inl (422, errs) \<and> errs \<noteq> [])) \<and>
   (well_formed_messages r \<longrightarrow>
      ((\<exists>req'. parse_request r = Inr req') \<longleftrightarrow> within_ranges r))"
proof -
  have a: "within_ranges r \<and>
      0 \<le> temperature req \<and> temperature req \<le> 2 \<and>
      1 \<le> max_tokens req \<and> max_tokens req \<le> 32000 \<and>
      0 \<le> top_p req \<and> top_p req \<le> 1" if p: "parse_request r = Inr req"
  proof -
    from p parse_request_accepts_iff [of r] have w: "within_ranges r" by blast
    with parse_request_values [OF p] show ?thesis by (simp add: within_ranges_def)
  qed
  have b: "\<exists>errs. parse_request r = Inl (422, errs) \<and> errs \<noteq> []" if "\<not> within_ranges r"
    using that parse_request_rejects_iff [of r] by blast
  have c: "(\<exists>req'. parse_request r = Inr req') \<longleftrightarrow> within_ranges r"
    if "well_formed_messages r"
    using that parse_request_accepts_iff [of r] by blast
  from a b c show ?thesis by blast
qed

theorem request_ranges_validated_witness:
  "(\<exists>errs. parse_request (hello_body \<lparr> raw_max_tokens := Some 0 \<rparr>) = Inl (422, errs)) \<and>
   (\<exists>req. parse_request (hello_body \<lparr> raw_max_tokens := Some 1 \<rparr>) = Inr req) \<and>
   (\<exists>req. parse_request (hello_body \<lparr> raw_temperature := Some 2.0 \<rparr>) = Inr req) \<and>
   (\<exists>errs. parse_request (hello_body \<lparr> raw_temperature := Some 2.01 \<rparr>) = Inl (422, errs))"
proof -
  have wf: "well_formed_messages (hello_body \<lparr> raw_max_tokens := Some n \<rparr>)"
    "well_formed_messages (hello_body \<lparr> raw_temperature := Some t \<rparr>)" for n t
    by (simp_all add: well_formed_messages_def well_formed_message_def hello_body_def
          role_literal_def)
  have r1: "\<not> within_ranges (hello_body \<lparr> raw_max_tokens := Some 0 \<rparr>)"
    and r2: "within_ranges (hello_body \<lparr> raw_max_tokens := Some 1 \<rparr>)"
    and r3: "within_ranges (hello_body \<lparr> raw_temperature := Some 2.0 \<rparr>)"
    and r4: "\<not> within_ranges (hello_body \<lparr> raw_temperature := Some 2.01 \<rparr>)"
    by (simp_all add: within_ranges_def hello_body_def)
  have a: "\<exists>errs. parse_request (hello_body \<lparr> raw_max_tokens := Some 0 \<rparr>) = Inl (422, errs)"
    using request_ranges_validated [of "hello_body \<lparr> raw_max_tokens := Some 0 \<rparr>"] r1
    by blast
  have b: "\<exists>req. parse_request (hello_body \<lparr> raw_max_tokens := Some 1 \<rparr>) = Inr req"
    using request_ranges_validated [of "hello_body \<lparr> raw_max_tokens := Some 1 \<rparr>"] r2 wf(1)
    by blast
  have c: "\<exists>req. parse_request (hello_body \<lparr> raw_temperature := Some 2.0 \<rparr>) = Inr req"
    using request_ranges_validated [of "hello_body \<lparr> raw_temperature := Some 2.0 \<rparr>"] r3 wf(2)
    by blast
  have d: "\<exists>errs. parse_request (hello_body \<lparr> raw_temperature := Some 2.01 \<rparr>) =
             Inl (422, errs)"
    using request_ranges_validated [of "hello_body \<lparr> raw_temperature := Some 2.01 \<rparr>"] r4
    by blast
  from a b c d show ?thesis by blast
qed

text \<open>
  Claim C6 as written fails from right to left: the body of the repository's own test,
  which has no \<^verbatim>\<open>messages\<close>, is within all three ranges (by the defaults) and is
  rejected with 422.
\<close>

theorem parse_request_missing_messages_counterexample:
  "within_ranges (hello_body \<lparr> raw_messages := None \<rparr>) \<and>
   parse_request (hello_body \<lparr> raw_messages := None \<rparr>) =
     Inl (422, [([Key ''body'', Key ''messages''], ''missing'')])"
  by (simp add: within_ranges_def parse_request_def request_errors_def hello_body_def
        HTTP_422_UNPROCESSABLE_def)

section \<open>Theorems: routes\<close>

lemma build_response_Inr:
  assumes "build_response S uuid_hex now response = Inr resp"
  shows "\<exists>choice_data rest.
           e_choices response = choice_data # rest \<and>
           e_role (e_message choice_data) \<in> set role_literal \<and>
           or_default (e_finish_reason choice_data) ''stop'' \<in> set finish_reason_literal \<and>
           choices resp =
             [\<lparr> index = 0,
                message = \<lparr> role = e_role (e_message choice_data),
                            content = e_content (e_message choice_data) \<rparr>,
                finish_reason = or_default (e_finish_reason choice_data) ''stop'' \<rparr>] \<and>
           usage resp =
             \<lparr> prompt_tokens = e_prompt_tokens (e_usage response),
               completion_tokens = e_completion_tokens (e_usage response),
               total_tokens = e_total_tokens (e_usage response) \<rparr>"
  using assms
  by (cases "e_choices response")
     (auto simp: build_response_def Let_def split: if_splits)

lemma build_response_succeeds:
  assumes "e_choices response = choice_data # rest"
    and "e_role (e_message choice_data) \<in> set role_literal"
    and "or_default (e_finish_reason choice_data) ''stop'' \<in> set finish_reason_literal"
  shows "\<exists>resp. build_response S uuid_hex now response = Inr resp"
  using assms by (simp add: build_response_def Let_def)

lemma route_Response:
  assumes "route_create_chat_completion S W engine uuid_hex now request m = (Response c resp, m')"
  shows "\<exists>h response.
           get_llm S W m = (Returns h, m') \<and>
           engine h (engine_messages request) (request_sampling request) = Inr response \<and>
           build_response S uuid_hex now response = Inr resp \<and> c = 200"
  using assms
  by (auto simp: route_create_chat_completion_def create_chat_completion_def Let_def
        split: prod.splits outcome.splits sum.splits)

lemma route_after_engine:
  assumes "get_llm S W m = (Returns h, m')"
    and "engine h (engine_messages request) (request_sampling request) = Inr response"
    and "build_response S uuid_hex now response = Inr resp"
  shows "route_create_chat_completion S W engine uuid_hex now request m = (Response 200 resp, m')"
  using assms
  by (simp add: route_create_chat_completion_def create_chat_completion_def Let_def)

text \<open>
  Claim C7. Whenever the chat route answers with a response envelope, the manager gave a
  handle, the engine returned a response for the request's messages and sampling fields,
  the status is 200, and the envelope holds one choice whose message content is the
  content of the engine's first choice and a usage whose three counts are the engine's;
  so the total is the sum of the other two whenever it is so in the engine's counts. And
  the route does answer with an envelope whenever the manager gives a handle and the
  engine returns a completion whose role and finish reason are of the declared literals.
\<close>

theorem chat_route_copies_engine_output:
  "(route_create_chat_completion S W engine uuid_hex now request m = (Response c resp, m') \<longrightarrow>
      (\<exists>h response choice_data rest.
         get_llm S W m = (Returns h, m') \<and>
         engine h (engine_messages request) (request_sampling request) = Inr response \<and>
         e_choices response = choice_data # rest \<and>
         c = 200 \<and> length (choices resp) = 1 \<and>
         content (message (choices resp ! 0)) = e_content (e_message choice_data) \<and>
         prompt_tokens (usage resp) = e_prompt_tokens (e_usage response) \<and>
         completion_tokens (usage resp) = e_completion_tokens (e_usage response) \<and>
         total_tokens (usage resp) = e_total_tokens (e_usage response) \<and>
         (e_total_tokens (e_usage response) =
            e_prompt_tokens (e_usage response) + e_completion_tokens (e_usage response) \<longrightarrow>
          total_tokens (usage resp) =
            prompt_tokens (usage resp) + completion_tokens (usage resp)))) \<and>
   (get_llm S W m = (Returns h0, m0) \<and>
    engine h0 (engine_messages request) (request_sampling request) = Inr response0 \<and>
    e_choices response0 = choice0 # rest0 \<and>
    e_role (e_message choice0) \<in> set role_literal \<and>
    or_default (e_finish_reason choice0) ''stop'' \<in> set finish_reason_literal \<longrightarrow>
      (\<exists>resp0. route_create_chat_completion S W engine uuid_hex now request m =
                 (Response 200 resp0, m0)))"
proof (intro conjI impI)
  assume r: "route_create_chat_completion S W engine uuid_hex now request m =
               (Response c resp, m')"
  from route_Response [of S W engine uuid_hex now request m c resp m'] r
  obtain h response where
    g: "get_llm S W m = (Returns h, m')" and
    e: "engine h (engine_messages request) (request_sampling request) = Inr response" and
    b: "build_response S uuid_hex now response = Inr resp" and c: "c = 200"
    by blast
  from build_response_Inr [of S uuid_hex now response resp] b
  obtain choice_data rest where
    ch: "e_choices response = choice_data # rest" and
    cs: "choices resp =
           [\<lparr> index = 0,
              message = \<lparr> role = e_role (e_message choice_data),
                          content = e_content (e_message choice_data) \<rparr>,
              finish_reason = or_default (e_finish_reason choice_data) ''stop'' \<rparr>]" and
    us: "usage resp =
           \<lparr> prompt_tokens = e_prompt_tokens (e_usage response),
             completion_tokens = e_completion_tokens (e_usage response),
             total_tokens = e_total_tokens (e_usage response) \<rparr>"
    by blast
  from cs have c1: "length (choices resp) = 1"
    and c2: "content (message (choices resp ! 0)) = e_content (e_message choice_data)"
    by simp_all
  from us have u: "prompt_tokens (usage resp) = e_prompt_tokens (e_usage response)"
    "completion_tokens (usage resp) = e_completion_tokens (e_usage response)"
    "total_tokens (usage resp) = e_total_tokens (e_usage response)"
    by simp_all
  from g e ch c c1 c2 u
  show "\<exists>h response choice_data rest.
         get_llm S W m = (Returns h, m') \<and>
         engine h (engine_messages request) (request_sampling request) = Inr response \<and>
         e_choices response = choice_data # rest \<and>
         c = 200 \<and> length (choices resp) = 1 \<and>
         content (message (choices resp ! 0)) = e_content (e_message choice_data) \<and>
         prompt_tokens (usage resp) = e_prompt_tokens (e_usage response) \<and>
         completion_tokens (usage resp) = e_completion_tokens (e_usage response) \<and>
         total_tokens (usage resp) = e_total_tokens (e_usage response) \<and>
         (e_total_tokens (e_usage response) =
            e_prompt_tokens (e_usage response) + e_completion_tokens (e_usage response) \<longrightarrow>
          total_tokens (usage resp) =
            prompt_tokens (usage resp) + completion_tokens (usage resp))"
    by (intro exI [of _ h] exI [of _ response] exI [of _ choice_data] exI [of _ rest]) simp
next
  assume a: "get_llm S W m = (Returns h0, m0) \<and>
    engine h0 (engine_messages request) (request_sampling request) = Inr response0 \<and>
    e_choices response0 = choice0 # rest0 \<and>
    e_role (e_message choice0) \<in> set role_literal \<and>
    or_default (e_finish_reason choice0) ''stop'' \<in> set finish_reason_literal"
  with build_response_succeeds [of response0 choice0 rest0 S uuid_hex now]
  obtain resp0 where "build_response S uuid_hex now response0 = Inr resp0" by blast
  with a route_after_engine [of S W m h0 m0 engine request response0 uuid_hex now resp0]
  show "\<exists>resp0. route_create_chat_completion S W engine uuid_hex now request m =
                 (Response 200 resp0, m0)"
    by blast
qed

theorem chat_route_copies_engine_output_witness:
  "\<exists>resp. route_create_chat_completion test_settings (\<lambda>k. loadable) stub_chat
            ''0123456789abcdef0123456789abcdef'' 1700000000 hello_request loaded_manager =
            (Response 200 resp, loaded_manager) \<and>
          content (message (choices resp ! 0)) = ''Hi there!'' \<and>
          prompt_tokens (usage resp) = 5 \<and> completion_tokens (usage resp) = 7 \<and>
          total_tokens (usage resp) = 12 \<and>
          total_tokens (usage resp) = prompt_tokens (usage resp) + completion_tokens (usage resp)"
proof -
  let ?W = "\<lambda>k::nat. loadable"
  let ?u = "''0123456789abcdef0123456789abcdef''"
  let ?route = "route_create_chat_completion test_settings ?W stub_chat ?u 1700000000
                  hello_request loaded_manager"
  have g: "get_llm test_settings ?W loaded_manager = (Returns 0, loaded_manager)"
    by (simp add: get_llm_def loaded_manager_def)
  have e: "stub_chat 0 (engine_messages hello_request) (request_sampling hello_request) =
             Inr stub_response"
    by (simp add: stub_chat_def)
  have ch: "e_choices stub_response =
              \<lparr> e_message = \<lparr> e_role = ''assistant'', e_content = ''Hi there!'' \<rparr>,
                e_finish_reason = Some ''stop'' \<rparr> # []"
    by (simp add: stub_response_def)
  have lit: "e_role (e_message \<lparr> e_message = \<lparr> e_role = ''assistant'', e_content = ''Hi there!'' \<rparr>,
                e_finish_reason = Some ''stop'' \<rparr>) \<in> set role_literal"
    "or_default (e_finish_reason \<lparr> e_message = \<lparr> e_role = ''assistant'', e_content = ''Hi there!'' \<rparr>,
                e_finish_reason = Some ''stop'' \<rparr>) ''stop'' \<in> set finish_reason_literal"
    by (simp_all add: role_literal_def finish_reason_literal_def)
  note total = chat_route_copies_engine_output [of test_settings ?W stub_chat ?u 1700000000
      hello_request loaded_manager _ _ _ 0 loaded_manager stub_response _ "[]"]
  from total g e ch lit
  obtain resp0 where r: "?route = (Response 200 resp0, loaded_manager)" by blast
  from chat_route_copies_engine_output [of test_settings ?W stub_chat ?u 1700000000
      hello_request loaded_manager 200 resp0 loaded_manager] r
  obtain h response choice_data rest where
    g': "get_llm test_settings ?W loaded_manager = (Returns h, loaded_manager)" and
    e': "stub_chat h (engine_messages hello_request) (request_sampling hello_request) =
           Inr response" and
    ch': "e_choices response = choice_data # rest" and
    out: "content (message (choices resp0 ! 0)) = e_content (e_message choice_data)"
      "prompt_tokens (usage resp0) = e_prompt_tokens (e_usage response)"
      "completion_tokens (usage resp0) = e_completion_tokens (e_usage response)"
      "total_tokens (usage resp0) = e_total_tokens (e_usage response)"
    by blast
  from e' have "response = stub_response" by (simp add: stub_chat_def)
  with ch' out have
    "content (message (choices resp0 ! 0)) = ''Hi there!''"
    "prompt_tokens (usage resp0) = 5" "completion_tokens (usage resp0) = 7"
    "total_tokens (usage resp0) = 12"
    by (auto simp: stub_response_def)
  with r show ?thesis by (intro exI [of _ resp0]) simp
qed

text \<open>
  Claim C8. \<^verbatim>\<open>GET /health\<close> has no dependency: whatever the Authorization header is
  (or if there is none) and whatever the security scheme would say, the answer is 200
  with status ok and \<^verbatim>\<open>model_loaded\<close> telling whether the manager holds a handle; with
  no handle it is 200 with \<^verbatim>\<open>model_loaded\<close> false.
\<close>

theorem health_always_ok:
  "serve_get S bearer m Health authorization =
     Response 200 (HealthBody \<lparr> status = ''ok'', model_loaded = (llm m \<noteq> None) \<rparr>) \<and>
   (llm m = None \<longrightarrow>
      serve_get S bearer m Health authorization =
        Response 200 (HealthBody \<lparr> status = ''ok'', model_loaded = False \<rparr>))"
  by (simp add: serve_get_def health_check_def is_loaded_def)

theorem health_always_ok_witness:
  "serve_get test_settings bearer_rejects init_manager Health None =
     Response 200 (HealthBody \<lparr> status = ''ok'', model_loaded = False \<rparr>) \<and>
   serve_get test_settings bearer_rejects init_manager Models None =
     HTTPError (HTTPException 403 ''Not authenticated'' []) \<and>
   serve_get test_settings bearer_passes
       (snd (reload_model test_settings (\<lambda>k. missing_file) loaded_manager)) Health
       (Some ''not-a-key'') =
     Response 200 (HealthBody \<lparr> status = ''ok'', model_loaded = False \<rparr>) \<and>
   serve_get test_settings bearer_passes loaded_manager Health None =
     Response 200 (HealthBody \<lparr> status = ''ok'', model_loaded = True \<rparr>)"
proof -
  let ?m = "snd (reload_model test_settings (\<lambda>k. missing_file) loaded_manager)"
  have a: "llm init_manager = None" by (simp add: init_manager_def)
  have b: "llm ?m = None"
    by (simp add: reload_model_def Let_def load_model_def load_model_body_def
          missing_file_def loaded_manager_def init_manager_def)
  have c: "llm loaded_manager \<noteq> None" by (simp add: loaded_manager_def)
  have d: "serve_get test_settings bearer_rejects init_manager Models None =
             HTTPError (HTTPException 403 ''Not authenticated'' [])"
    by (simp add: serve_get_def bearer_rejects_def)
  from health_always_ok [of test_settings bearer_rejects init_manager None] a
    health_always_ok [of test_settings bearer_passes ?m "Some ''not-a-key''"] b
    health_always_ok [of test_settings bearer_passes loaded_manager None] c d
  show ?thesis by simp
qed

section \<open>Theorems: concurrent callers\<close>

lemma length_tasks_step: "length (tasks (step S W i s)) = length (tasks s)"
  by (simp add: step_def Let_def split: pc.splits sum.splits)

lemma filter_update_count:
  assumes "i < length xs"
  shows "length (filter P (xs[i := v])) + (if P (xs ! i) then 1 else 0) =
         length (filter P xs) + (if P v then 1 else 0)"
  using assms
proof (induction xs arbitrary: i)
  case Nil
  then show ?case by simp
next
  case (Cons x xs)
  then show ?case by (cases i) auto
qed

lemma filter_count_mono:
  assumes "\<And>x. P x \<Longrightarrow> Q x"
  shows "length (filter P xs) \<le> length (filter Q xs)"
  using assms by (induction xs) auto

lemma two_in_filter:
  assumes "a \<in> set xs" and "b \<in> set xs" and "P a" and "P b" and "a \<noteq> b"
  shows "2 \<le> length (filter P xs)"
proof -
  have "{a, b} \<subseteq> set (filter P xs)" using assms by simp
  then have "card {a, b} \<le> card (set (filter P xs))"
    by (intro card_mono) simp_all
  also have "\<dots> \<le> length (filter P xs)" by (rule card_length)
  finally show ?thesis using assms(5) by simp
qed

lemma mutex_inv_step:
  assumes "mutex_inv s" and "i < length (tasks s)"
  shows "mutex_inv (step S W i s)"
proof -
  note upd = filter_update_count [OF assms(2), of in_critical]
  show ?thesis
  proof (cases "tasks s ! i")
    case Check1
    with assms(1) upd [of Acquire] upd [of Return] show ?thesis
      by (auto simp: mutex_inv_def critical_count_def step_def Let_def split: if_splits)
  next
    case Acquire
    with assms(1) upd [of Check2] show ?thesis
      by (auto simp: mutex_inv_def critical_count_def step_def Let_def split: if_splits)
  next
    case Check2
    with assms(1) upd [of "Loading (loads (mgr s))"] upd [of Release] show ?thesis
      by (auto simp: mutex_inv_def critical_count_def step_def Let_def split: if_splits)
  next
    case (Loading k)
    show ?thesis
    proof (cases "load_model S (W k) k")
      case (Inl e)
      with Loading assms(1) upd [of "ReleaseRaise e"] show ?thesis
        by (auto simp: mutex_inv_def critical_count_def step_def Let_def split: if_splits)
    next
      case (Inr h)
      with Loading assms(1) upd [of Release] show ?thesis
        by (auto simp: mutex_inv_def critical_count_def step_def Let_def split: if_splits)
    qed
  next
    case Release
    with assms(1) upd [of Return] show ?thesis
      by (auto simp: mutex_inv_def critical_count_def step_def Let_def split: if_splits)
  next
    case (ReleaseRaise e)
    with assms(1) upd [of "Failed e"] show ?thesis
      by (auto simp: mutex_inv_def critical_count_def step_def Let_def split: if_splits)
  next
    case Return
    with assms(1) upd [of "Done (llm (mgr s))"] show ?thesis
      by (auto simp: mutex_inv_def critical_count_def step_def Let_def split: if_splits)
  next
    case (Done r)
    with assms(1) show ?thesis by (simp add: step_def Let_def)
  next
    case (Failed e)
    with assms(1) show ?thesis by (simp add: step_def Let_def)
  qed
qed

lemma mutex_inv_start: "mutex_inv (start n)"
  by (simp add: mutex_inv_def critical_count_def start_def init_manager_def)

lemma mutex_inv_run: "mutex_inv s \<Longrightarrow> mutex_inv (run S W sched s)"
  by (induction sched arbitrary: s) (simp_all add: mutex_inv_step)

lemma at_most_one_loading:
  assumes "mutex_inv s"
  shows "length (filter is_loading (tasks s)) \<le> 1"
proof -
  have "is_loading p \<Longrightarrow> in_critical p" for p by (cases p) simp_all
  then have "length (filter is_loading (tasks s)) \<le> critical_count s"
    unfolding critical_count_def by (rule filter_count_mono)
  with assms show ?thesis by (simp add: mutex_inv_def split: if_splits)
qed

lemma in_set_update_cases:
  "p \<in> set (xs[i := v]) \<Longrightarrow> p = v \<or> p \<in> set xs"
  using set_update_subset_insert [of xs i v] by auto

lemma in_set_update_keep:
  assumes "q \<in> set xs" and "q \<noteq> xs ! i"
  shows "q \<in> set (xs[i := v])"
proof -
  from assms(1) obtain j where j: "j < length xs" "xs ! j = q"
    by (auto simp: in_set_conv_nth)
  with assms(2) have "j \<noteq> i" by auto
  with j have "xs[i := v] ! j = q" "j < length (xs[i := v])" by simp_all
  then show ?thesis by (metis nth_mem)
qed

lemma pc_ok_lock: "pc_ok (m \<lparr> lock := b \<rparr>) p = pc_ok m p"
  by (cases p) simp_all

lemma pc_ok_llm: "pc_ok m p \<Longrightarrow> pc_ok (m \<lparr> llm := Some 0 \<rparr>) p"
  by (cases p) simp_all

lemma pc_ok_loads: "loads m = 0 \<Longrightarrow> pc_ok m p \<Longrightarrow> pc_ok (m \<lparr> loads := Suc 0 \<rparr>) p"
  by (cases p) simp_all

lemma once_inv_step:
  assumes mut: "mutex_inv s" and inv: "once_inv s" and i: "i < length (tasks s)"
    and ok: "load_model S (W 0) 0 = Inr h"
  shows "once_inv (step S W i s)"
proof -
  from i have mem: "tasks s ! i \<in> set (tasks s)" by simp
  from inv have all: "\<And>p. p \<in> set (tasks s) \<Longrightarrow> pc_ok (mgr s) p"
    and llm01: "llm (mgr s) = None \<or> llm (mgr s) = Some 0"
    and loaded: "llm (mgr s) = Some 0 \<Longrightarrow> loads (mgr s) = 1"
    and le: "loads (mgr s) \<le> 1"
    and pending: "loads (mgr s) = 1 \<Longrightarrow> llm (mgr s) = None \<Longrightarrow> Loading 0 \<in> set (tasks s)"
    by (auto simp: once_inv_def)
  from ok have h0: "h = 0" by (rule load_model_handle)
  show ?thesis
  proof (cases "tasks s ! i")
    case Check1
    with all llm01 loaded le pending show ?thesis
      by (auto simp: once_inv_def step_def Let_def
            dest!: in_set_update_cases intro!: in_set_update_keep)
  next
    case Acquire
    with all llm01 loaded le pending show ?thesis
      by (auto simp: once_inv_def step_def Let_def pc_ok_lock
            dest!: in_set_update_cases intro!: in_set_update_keep)
  next
    case Check2
    show ?thesis
    proof (cases "llm (mgr s)")
      case None
      have "loads (mgr s) = 0"
      proof (rule ccontr)
        assume "loads (mgr s) \<noteq> 0"
        with le have "loads (mgr s) = 1" by simp
        with None pending have "Loading 0 \<in> set (tasks s)" by simp
        with mem Check2 have "2 \<le> critical_count s"
          unfolding critical_count_def
          by (intro two_in_filter [of "Loading 0" _ Check2]) simp_all
        with mut show False by (simp add: mutex_inv_def split: if_splits)
      qed
      with Check2 None all i show ?thesis
        by (auto simp: once_inv_def step_def Let_def pc_ok_loads set_update_memI
              dest!: in_set_update_cases)
    next
      case (Some a)
      with Check2 all llm01 loaded le show ?thesis
        by (auto simp: once_inv_def step_def Let_def dest!: in_set_update_cases)
    qed
  next
    case (Loading k)
    with all [OF mem] have k: "k = 0" "loads (mgr s) = 1" by simp_all
    with Loading ok h0 all le show ?thesis
      by (auto simp: once_inv_def step_def Let_def pc_ok_llm dest!: in_set_update_cases)
  next
    case Release
    with all [OF mem] have "llm (mgr s) = Some 0" by simp
    with Release all loaded le show ?thesis
      by (auto simp: once_inv_def step_def Let_def pc_ok_lock dest!: in_set_update_cases)
  next
    case (ReleaseRaise e)
    with all [OF mem] show ?thesis by simp
  next
    case Return
    with all [OF mem] have "llm (mgr s) = Some 0" by simp
    with Return all loaded le show ?thesis
      by (auto simp: once_inv_def step_def Let_def dest!: in_set_update_cases)
  next
    case (Done r)
    with inv show ?thesis by (simp add: step_def Let_def)
  next
    case (Failed e)
    with inv show ?thesis by (simp add: step_def Let_def)
  qed
qed

lemma once_inv_start: "once_inv (start n)"
  by (simp add: once_inv_def start_def init_manager_def)

lemma length_tasks_run: "length (tasks (run S W sched s)) = length (tasks s)"
  by (induction sched arbitrary: s) (simp_all add: length_tasks_step)

lemma once_inv_run:
  assumes "load_model S (W 0) 0 = Inr h"
  shows "mutex_inv s \<Longrightarrow> once_inv s \<Longrightarrow> once_inv (run S W sched s)"
proof (induction sched arbitrary: s)
  case Nil
  then show ?case by simp
next
  case (Cons i sched)
  show ?case
  proof (cases "i < length (tasks s)")
    case True
    with Cons.prems assms have "mutex_inv (step S W i s)" "once_inv (step S W i s)"
      by (simp_all add: mutex_inv_step once_inv_step [of s i S W h])
    with Cons.IH [of "step S W i s"] True show ?thesis by simp
  next
    case False
    with Cons.IH [of s] Cons.prems show ?thesis by simp
  qed
qed

lemma once_inv_finished:
  assumes "once_inv s" and "tasks s \<noteq> []" and "list_all finished (tasks s)"
  shows "loads (mgr s) = 1 \<and> list_all (\<lambda>p. p = Done (Some 0)) (tasks s)"
proof -
  have ret: "p = Done (Some 0) \<and> llm (mgr s) = Some 0" if "p \<in> set (tasks s)" for p
  proof -
    from that assms(1) have "pc_ok (mgr s) p" by (simp add: once_inv_def)
    moreover from that assms(3) have "finished p" by (simp add: list_all_iff)
    ultimately show ?thesis by (cases p) simp_all
  qed
  from assms(2) obtain p where "p \<in> set (tasks s)" by (cases "tasks s") auto
  with ret have "llm (mgr s) = Some 0" by blast
  with assms(1) have "loads (mgr s) = 1" by (simp add: once_inv_def)
  with ret show ?thesis by (simp add: list_all_iff)
qed

lemma run_append: "run S W (a @ b) s = run S W b (run S W a s)"
  by (induction a arbitrary: s) simp_all

lemma get_llm_lock_free:
  assumes "\<not> lock m"
  shows "\<not> lock (snd (get_llm S W m)) \<and> fst (get_llm S W m) \<noteq> Blocks"
  using assms
  by (auto simp: get_llm_def Let_def split: option.splits sum.splits)

text \<open>
  A task that runs alone from \<open>Check1\<close> with the lock free does in six steps what
  \<^verbatim>\<open>get_llm\<close> run without interleaving does.
\<close>

lemma solo_task:
  assumes "\<not> lock (mgr s)" and "i < length (tasks s)" and "tasks s ! i = Check1"
  shows "run S W (replicate 6 i) s =
           s \<lparr> mgr := snd (get_llm S W (mgr s)),
               tasks := (tasks s)[i := (case fst (get_llm S W (mgr s)) of
                                          Returns h \<Rightarrow> Done (Some h)
                                        | Raises e \<Rightarrow> Failed e
                                        | Blocks \<Rightarrow> Acquire)] \<rparr>"
proof -
  have six: "replicate 6 i = [i, i, i, i, i, i]" by (simp add: numeral_eq_Suc)
  show ?thesis
    unfolding six using assms
    by (cases "llm (mgr s)"; cases "load_model S (W (loads (mgr s))) (loads (mgr s))")
       (simp_all add: step_def get_llm_def Let_def)
qed

lemma sequential_prefix:
  assumes "k \<le> n"
  shows "\<not> lock (mgr (run S W (sequential_schedule k) (start n))) \<and>
         length (tasks (run S W (sequential_schedule k) (start n))) = n \<and>
         (\<forall>j<k. finished (tasks (run S W (sequential_schedule k) (start n)) ! j)) \<and>
         (\<forall>j. k \<le> j \<and> j < n \<longrightarrow>
               tasks (run S W (sequential_schedule k) (start n)) ! j = Check1)"
  using assms
proof (induction k)
  case 0
  then show ?case
    by (simp add: sequential_schedule_def start_def init_manager_def)
next
  case (Suc k)
  let ?s = "run S W (sequential_schedule k) (start n)"
  let ?r = "fst (get_llm S W (mgr ?s))"
  let ?p = "case ?r of Returns h \<Rightarrow> Done (Some h) | Raises e \<Rightarrow> Failed e | Blocks \<Rightarrow> Acquire"
  from Suc have free: "\<not> lock (mgr ?s)" and len: "length (tasks ?s) = n"
    and fin: "\<And>j. j < k \<Longrightarrow> finished (tasks ?s ! j)"
    and rest: "\<And>j. k \<le> j \<Longrightarrow> j < n \<Longrightarrow> tasks ?s ! j = Check1"
    by simp_all
  from Suc.prems have kn: "k < n" by simp
  have sched: "sequential_schedule (Suc k) = sequential_schedule k @ replicate 6 k"
    by (simp add: sequential_schedule_def)
  have "run S W (sequential_schedule (Suc k)) (start n) = run S W (replicate 6 k) ?s"
    by (simp only: sched run_append)
  also have "\<dots> = ?s \<lparr> mgr := snd (get_llm S W (mgr ?s)), tasks := (tasks ?s)[k := ?p] \<rparr>"
    using free kn len rest [of k] by (intro solo_task) simp_all
  finally have eq: "run S W (sequential_schedule (Suc k)) (start n) =
      ?s \<lparr> mgr := snd (get_llm S W (mgr ?s)), tasks := (tasks ?s)[k := ?p] \<rparr>" .
  from get_llm_lock_free [OF free, of S W]
  have free': "\<not> lock (snd (get_llm S W (mgr ?s)))" and nb: "?r \<noteq> Blocks" by simp_all
  from nb have p: "finished ?p" by (cases ?r) simp_all
  show ?case
    unfolding eq using free' len kn p fin rest
    by (auto simp: nth_list_update less_Suc_eq)
qed

lemma all_callers_can_finish:
  "list_all finished (tasks (run S W (sequential_schedule n) (start n)))"
  using sequential_prefix [of n n S W]
  by (auto simp: list_all_length)

text \<open>
  Claim C1, as the code has it. Take \<open>n\<close> tasks that call \<^verbatim>\<open>get_llm\<close> on a new manager
  and any schedule of their steps. At every moment at most one task is inside
  \<^verbatim>\<open>_load_model\<close>, whatever the loads do. If the first invocation of \<^verbatim>\<open>_load_model\<close>
  succeeds, it is never invoked a second time, and once all callers have finished it has
  been invoked exactly once and every caller has returned its handle. And the callers
  can all finish: on the schedule that runs them one after the other they do.
\<close>

theorem concurrent_get_llm_single_load:
  "length (filter is_loading (tasks (run S W sched (start n)))) \<le> 1 \<and>
   ((\<exists>h. load_model S (W 0) 0 = Inr h) \<longrightarrow>
      loads (mgr (run S W sched (start n))) \<le> 1 \<and>
      (0 < n \<and> list_all finished (tasks (run S W sched (start n))) \<longrightarrow>
         loads (mgr (run S W sched (start n))) = 1 \<and>
         list_all (\<lambda>p. p = Done (Some 0)) (tasks (run S W sched (start n))))) \<and>
   list_all finished (tasks (run S W (sequential_schedule n) (start n)))"
proof -
  let ?s = "run S W sched (start n)"
  have one: "length (filter is_loading (tasks ?s)) \<le> 1"
    by (intro at_most_one_loading mutex_inv_run mutex_inv_start)
  have once: "loads (mgr ?s) \<le> 1 \<and>
      (0 < n \<and> list_all finished (tasks ?s) \<longrightarrow>
         loads (mgr ?s) = 1 \<and> list_all (\<lambda>p. p = Done (Some 0)) (tasks ?s))"
    if ok: "load_model S (W 0) 0 = Inr h" for h
  proof -
    from ok have inv: "once_inv ?s"
      by (intro once_inv_run [of S W h] mutex_inv_start once_inv_start)
    then have le: "loads (mgr ?s) \<le> 1" by (simp add: once_inv_def)
    have "loads (mgr ?s) = 1 \<and> list_all (\<lambda>p. p = Done (Some 0)) (tasks ?s)"
      if fin: "0 < n \<and> list_all finished (tasks ?s)"
    proof -
      from fin have "tasks ?s \<noteq> []"
        using length_tasks_run [of S W sched "start n"] by (auto simp: start_def)
      with inv fin show ?thesis by (intro once_inv_finished) simp_all
    qed
    with le show ?thesis by blast
  qed
  have can: "list_all finished (tasks (run S W (sequential_schedule n) (start n)))"
    by (rule all_callers_can_finish)
  from one once can show ?thesis by blast
qed

lemma run_two_callers_midway:
  "run test_settings (\<lambda>k. loadable) [0, 1, 0, 1, 0] (start 2) =
     \<lparr> mgr = \<lparr> llm = None, lock = True, loading = False, loads = 1 \<rparr>,
       tasks = [Loading 0, Acquire] \<rparr>"
  by code_simp

lemma run_two_callers_loadable:
  "run test_settings (\<lambda>k. loadable) [0, 1, 0, 1, 0, 0, 0, 0, 1, 1, 1, 1] (start 2) =
     \<lparr> mgr = \<lparr> llm = Some 0, lock = False, loading = False, loads = 1 \<rparr>,
       tasks = [Done (Some 0), Done (Some 0)] \<rparr>"
  by code_simp

theorem concurrent_get_llm_single_load_witness:
  "length (filter is_loading
     (tasks (run test_settings (\<lambda>k. loadable) [0, 1, 0, 1, 0] (start 2)))) \<le> 1 \<and>
   tasks (run test_settings (\<lambda>k. loadable) [0, 1, 0, 1, 0] (start 2)) =
     [Loading 0, Acquire] \<and>
   loads (mgr (run test_settings (\<lambda>k. loadable)
                 [0, 1, 0, 1, 0, 0, 0, 0, 1, 1, 1, 1] (start 2))) = 1 \<and>
   list_all (\<lambda>p. p = Done (Some 0))
     (tasks (run test_settings (\<lambda>k. loadable)
               [0, 1, 0, 1, 0, 0, 0, 0, 1, 1, 1, 1] (start 2)))"
proof -
  let ?W = "\<lambda>k::nat. loadable"
  let ?mid = "run test_settings ?W [0, 1, 0, 1, 0] (start 2)"
  let ?end = "run test_settings ?W [0, 1, 0, 1, 0, 0, 0, 0, 1, 1, 1, 1] (start 2)"
  have ok: "\<exists>h. load_model test_settings (?W 0) 0 = Inr h"
    by (simp add: load_model_def load_model_body_def loadable_def)
  have mid: "tasks ?mid = [Loading 0, Acquire]"
    by (subst run_two_callers_midway) simp
  have fin: "0 < (2::nat) \<and> list_all finished (tasks ?end)"
    by (subst run_two_callers_loadable) simp
  from concurrent_get_llm_single_load [of test_settings ?W "[0, 1, 0, 1, 0]" 2]
  have a: "length (filter is_loading (tasks ?mid)) \<le> 1" by (rule conjunct1)
  from concurrent_get_llm_single_load
         [of test_settings ?W "[0, 1, 0, 1, 0, 0, 0, 0, 1, 1, 1, 1]" 2]
  have "(\<exists>h. load_model test_settings (?W 0) 0 = Inr h) \<longrightarrow>
      loads (mgr ?end) \<le> 1 \<and>
      (0 < (2::nat) \<and> list_all finished (tasks ?end) \<longrightarrow>
         loads (mgr ?end) = 1 \<and> list_all (\<lambda>p. p = Done (Some 0)) (tasks ?end))"
    by (rule conjunct2 [THEN conjunct1])
  from this [rule_format, OF ok] have
    "0 < (2::nat) \<and> list_all finished (tasks ?end) \<longrightarrow>
         loads (mgr ?end) = 1 \<and> list_all (\<lambda>p. p = Done (Some 0)) (tasks ?end)"
    by (rule conjunct2)
  from this [rule_format, OF fin]
  have b: "loads (mgr ?end) = 1 \<and> list_all (\<lambda>p. p = Done (Some 0)) (tasks ?end)" .
  from b have b1: "loads (mgr ?end) = 1" by (rule conjunct1)
  from b have b2: "list_all (\<lambda>p. p = Done (Some 0)) (tasks ?end)" by (rule conjunct2)
  show ?thesis by (rule conjI [OF a conjI [OF mid conjI [OF b1 b2]]])
qed

text \<open>
  Claim C1 as written fails when the load fails: two callers start from the unloaded
  state, the model file is missing, the second caller waits for the lock while the first
  is loading, and \<^verbatim>\<open>_load_model\<close> is invoked twice, once by each caller.
\<close>

theorem concurrent_get_llm_failing_load_counterexample:
  "loads (mgr (run test_settings (\<lambda>k. missing_file)
                 [0, 1, 0, 1, 0, 0, 0, 1, 1, 1, 1] (start 2))) = 2 \<and>
   list_all finished
     (tasks (run test_settings (\<lambda>k. missing_file)
               [0, 1, 0, 1, 0, 0, 0, 1, 1, 1, 1] (start 2)))"
  by code_simp

end
